theory Spec2Isabelle
  imports Complex_Main
begin

section \<open>Python values used by the service\<close>

text \<open>
  The service is one Python module, \<^verbatim>\<open>backend/app.py\<close>. Exceptions are values: every
  function that can raise returns a sum whose left injection is the exception. A Python
  \<^verbatim>\<open>str\<close> is the list of the bytes of its UTF-8 encoding.
\<close>

type_synonym bytes = string

datatype py_exception =
    ZeroDivisionError string
  | OverflowError string
  | ValueError string
  | TypeError string
  | IndexError string
  | OSError string
  | UnicodeEncodeError string

fun str_exc :: "py_exception \<Rightarrow> string" where
  "str_exc (ZeroDivisionError m) = m"
| "str_exc (OverflowError m) = m"
| "str_exc (ValueError m) = m"
| "str_exc (TypeError m) = m"
| "str_exc (IndexError m) = m"
| "str_exc (OSError m) = m"
| "str_exc (UnicodeEncodeError m) = m"

text \<open>\<^verbatim>\<open>sep.join(xs)\<close>.\<close>

fun py_join :: "string \<Rightarrow> string list \<Rightarrow> string" where
  "py_join sep [] = []"
| "py_join sep [x] = x"
| "py_join sep (x # y # ys) = x @ sep @ py_join sep (y # ys)"

definition bind_exc :: "'e + 'a \<Rightarrow> ('a \<Rightarrow> 'e + 'b) \<Rightarrow> 'e + 'b" where
  "bind_exc r f = (case r of Inl e \<Rightarrow> Inl e | Inr x \<Rightarrow> f x)"

subsection \<open>Floats\<close>

text \<open>
  A Python float is a binary64 number: a finite value (a rational), one of the two
  infinities, or NaN. The sign of zero is not modelled; no operation below looks at it.

  Arithmetic rounds. The rounding function \<open>rnd\<close>, which maps the exact result of an
  operation to the float the hardware returns (round to nearest, exponent unbounded
  above), is a parameter of every arithmetic operation; a result whose rounded magnitude
  exceeds \<open>DBL_MAX\<close> is an infinity (or OverflowError where Python raises it).
  \<open>binary64_rounding\<close> states the three properties of that function the proofs use:
  zero is exact, rounding is monotone, and in the normal range (magnitude at least
  \<open>DBL_MIN\<close>) the relative error is at most half of \<open>DBL_EPSILON\<close>. Round to nearest
  has all three: in the normal range two neighbouring floats around \<open>x\<close> are at most
  \<open>DBL_EPSILON * \<bar>x\<bar>\<close> apart, and the nearer one is returned. The identity (exact
  arithmetic) is another such function.

  A finite float is a rational, so the statements below, which quantify over every
  rational scale factor, cover every finite float.
\<close>

datatype pyfloat = Finite rat | PosInf | NegInf | NaN

definition DBL_MAX :: rat where
  "DBL_MAX = (2 ^ 53 - 1) * 2 ^ 971"

definition DBL_MIN :: rat where
  "DBL_MIN = 1 / 2 ^ 1022"

definition DBL_EPSILON :: rat where
  "DBL_EPSILON = 1 / 2 ^ 52"

definition binary64_rounding :: "(rat \<Rightarrow> rat) \<Rightarrow> bool" where
  "binary64_rounding rnd \<longleftrightarrow>
     rnd 0 = 0 \<and>
     (\<forall>x y. x \<le> y \<longrightarrow> rnd x \<le> rnd y) \<and>
     (\<forall>x. DBL_MIN \<le> \<bar>x\<bar> \<longrightarrow> 2 * \<bar>rnd x - x\<bar> \<le> DBL_EPSILON * \<bar>x\<bar>)"

definition to_float :: "(rat \<Rightarrow> rat) \<Rightarrow> rat \<Rightarrow> pyfloat" where
  "to_float rnd x =
     (let r = rnd x in
      if DBL_MAX < r then PosInf else if r < - DBL_MAX then NegInf else Finite r)"

fun fmul :: "(rat \<Rightarrow> rat) \<Rightarrow> pyfloat \<Rightarrow> pyfloat \<Rightarrow> pyfloat" where
  "fmul rnd (Finite a) (Finite b) = to_float rnd (a * b)"
| "fmul rnd NaN y = NaN"
| "fmul rnd x NaN = NaN"
| "fmul rnd (Finite a) PosInf = (if a = 0 then NaN else if 0 < a then PosInf else NegInf)"
| "fmul rnd (Finite a) NegInf = (if a = 0 then NaN else if 0 < a then NegInf else PosInf)"
| "fmul rnd PosInf (Finite b) = (if b = 0 then NaN else if 0 < b then PosInf else NegInf)"
| "fmul rnd NegInf (Finite b) = (if b = 0 then NaN else if 0 < b then NegInf else PosInf)"
| "fmul rnd PosInf PosInf = PosInf"
| "fmul rnd PosInf NegInf = NegInf"
| "fmul rnd NegInf PosInf = NegInf"
| "fmul rnd NegInf NegInf = PosInf"

fun fsub :: "(rat \<Rightarrow> rat) \<Rightarrow> pyfloat \<Rightarrow> pyfloat \<Rightarrow> pyfloat" where
  "fsub rnd (Finite a) (Finite b) = to_float rnd (a - b)"
| "fsub rnd NaN y = NaN"
| "fsub rnd x NaN = NaN"
| "fsub rnd (Finite a) PosInf = NegInf"
| "fsub rnd (Finite a) NegInf = PosInf"
| "fsub rnd PosInf PosInf = NaN"
| "fsub rnd NegInf NegInf = NaN"
| "fsub rnd PosInf y = PosInf"
| "fsub rnd NegInf y = NegInf"

text \<open>Comparisons: every comparison with NaN is false.\<close>

fun flt :: "pyfloat \<Rightarrow> pyfloat \<Rightarrow> bool" where
  "flt NaN y = False"
| "flt x NaN = False"
| "flt (Finite a) (Finite b) = (a < b)"
| "flt x NegInf = False"
| "flt NegInf y = True"
| "flt PosInf y = False"
| "flt (Finite a) PosInf = True"

definition fgt :: "pyfloat \<Rightarrow> pyfloat \<Rightarrow> bool" where
  "fgt x y = flt y x"

definition fle :: "pyfloat \<Rightarrow> pyfloat \<Rightarrow> bool" where
  "fle x y = (x \<noteq> NaN \<and> y \<noteq> NaN \<and> (x = y \<or> flt x y))"

text \<open>\<^verbatim>\<open>int(x)\<close> truncates towards zero and raises on an infinity or NaN.\<close>

fun py_int :: "pyfloat \<Rightarrow> py_exception + int" where
  "py_int (Finite r) = Inr (if 0 \<le> r then \<lfloor>r\<rfloor> else \<lceil>r\<rceil>)"
| "py_int PosInf = Inl (OverflowError ''cannot convert float infinity to integer'')"
| "py_int NegInf = Inl (OverflowError ''cannot convert float infinity to integer'')"
| "py_int NaN = Inl (ValueError ''cannot convert float NaN to integer'')"

text \<open>An int operand of a float operation is converted to a float first.\<close>

definition float_of_int :: "(rat \<Rightarrow> rat) \<Rightarrow> int \<Rightarrow> py_exception + pyfloat" where
  "float_of_int rnd n =
     (let r = rnd (of_int n) in
      if DBL_MAX < \<bar>r\<bar> then Inl (OverflowError ''int too large to convert to float'')
      else Inr (Finite r))"

definition int_mul_float :: "(rat \<Rightarrow> rat) \<Rightarrow> int \<Rightarrow> pyfloat \<Rightarrow> py_exception + pyfloat" where
  "int_mul_float rnd n x = bind_exc (float_of_int rnd n) (\<lambda>f. Inr (fmul rnd f x))"

text \<open>\<^verbatim>\<open>a / b\<close> on two ints: the correctly rounded quotient.\<close>

definition int_truediv :: "(rat \<Rightarrow> rat) \<Rightarrow> int \<Rightarrow> int \<Rightarrow> py_exception + pyfloat" where
  "int_truediv rnd a b =
     (if b = 0 then Inl (ZeroDivisionError ''division by zero'')
      else let r = rnd (of_int a / of_int b) in
        if DBL_MAX < \<bar>r\<bar> then Inl (OverflowError ''integer division result too large for a float'')
        else Inr (Finite r))"

text \<open>\<^verbatim>\<open>min(a, b, c)\<close> keeps the first argument until a later one compares smaller.\<close>

definition py_min3 :: "pyfloat \<Rightarrow> pyfloat \<Rightarrow> pyfloat \<Rightarrow> pyfloat" where
  "py_min3 a b c =
     (let m = a;
          m = (if flt b m then b else m);
          m = (if flt c m then c else m)
      in m)"

section \<open>The imaging library\<close>

text \<open>
  Pillow is not part of the repository. An image is its mode, its size and its pixel
  store (of an arbitrary type); the library's operations are the fields of a record that
  every function of the service takes as an argument. Each operation may raise.
\<close>

record 'px image =
  mode :: string
  img_size :: "nat \<times> nat"
  pixels :: 'px

datatype Resampling = NEAREST | BOX | BILINEAR | HAMMING | BICUBIC | LANCZOS

record 'px pil =
  Image_open :: "bytes \<Rightarrow> py_exception + 'px image"
  new_pixels :: "string \<Rightarrow> nat \<times> nat \<Rightarrow> nat \<times> nat \<times> nat \<Rightarrow> py_exception + 'px"
  split :: "'px image \<Rightarrow> py_exception + 'px image list"
  paste_pixels :: "'px image \<Rightarrow> 'px image \<Rightarrow> 'px image \<Rightarrow> py_exception + 'px"
  convert :: "'px image \<Rightarrow> string \<Rightarrow> py_exception + 'px image"
  resize :: "'px image \<Rightarrow> int \<times> int \<Rightarrow> Resampling \<Rightarrow> py_exception + 'px image"
  filter_UnsharpMask :: "'px image \<Rightarrow> nat \<Rightarrow> nat \<Rightarrow> nat \<Rightarrow> py_exception + 'px image"
  save :: "'px image \<Rightarrow> string \<Rightarrow> nat \<Rightarrow> bool \<Rightarrow> py_exception + bytes"

text \<open>\<^verbatim>\<open>Image.new(mode, size, color)\<close>: a fresh image of that mode and size.\<close>

definition Image_new ::
  "('px, 'z) pil_scheme \<Rightarrow> string \<Rightarrow> nat \<times> nat \<Rightarrow> nat \<times> nat \<times> nat \<Rightarrow> py_exception + 'px image" where
  "Image_new lib m sz colour =
     bind_exc (new_pixels lib m sz colour) (\<lambda>p. Inr \<lparr>mode = m, img_size = sz, pixels = p\<rparr>)"

text \<open>\<^verbatim>\<open>background.paste(img, mask=m)\<close> rewrites the pixels of \<open>background\<close> in place.\<close>

definition paste ::
  "('px, 'z) pil_scheme \<Rightarrow> 'px image \<Rightarrow> 'px image \<Rightarrow> 'px image \<Rightarrow> py_exception + 'px image" where
  "paste lib background img msk =
     bind_exc (paste_pixels lib background img msk) (\<lambda>p. Inr (background\<lparr>pixels := p\<rparr>))"

text \<open>\<^verbatim>\<open>img.split()[-1]\<close>: the last band.\<close>

definition split_last :: "('px, 'z) pil_scheme \<Rightarrow> 'px image \<Rightarrow> py_exception + 'px image" where
  "split_last lib img =
     bind_exc (split lib img)
       (\<lambda>bands. if bands = [] then Inl (IndexError ''tuple index out of range'')
                 else Inr (last bands))"

section \<open>Configuration constants\<close>

definition MAX_FILE_SIZE :: nat where
  "MAX_FILE_SIZE = 10 * 1024 * 1024"

definition ALLOWED_EXTENSIONS :: "string list" where
  "ALLOWED_EXTENSIONS = [''.jpg'', ''.jpeg'', ''.png'', ''.webp'']"

definition ALLOWED_MIME_TYPES :: "string list" where
  "ALLOWED_MIME_TYPES = [''image/jpeg'', ''image/png'', ''image/webp'']"

definition MAX_DIMENSION :: int where
  "MAX_DIMENSION = 4000"

definition DEFAULT_SCALE_FACTOR :: pyfloat where
  "DEFAULT_SCALE_FACTOR = Finite 2"

definition RATE_LIMIT_REQUESTS :: nat where
  "RATE_LIMIT_REQUESTS = 10"

definition RATE_LIMIT_WINDOW :: pyfloat where
  "RATE_LIMIT_WINDOW = Finite 60"

section \<open>ImageProcessor.process_image\<close>

datatype http_exception = HTTPException (status_code: nat) (detail: string)

record metadata =
  original_size :: "nat \<times> nat"
  processed_size :: "int \<times> int"
  scale_factor :: pyfloat
  format :: string
  file_size_bytes :: nat

text \<open>Lines 151 to 160: the conversion of the decoded image by mode.\<close>

definition convert_mode :: "('px, 'z) pil_scheme \<Rightarrow> 'px image \<Rightarrow> py_exception + 'px image" where
  "convert_mode lib img =
     (if mode img \<in> {''RGBA'', ''LA''} then
        bind_exc (Image_new lib ''RGB'' (img_size img) (255, 255, 255)) (\<lambda>background.
        bind_exc (split_last lib img) (\<lambda>msk.
        paste lib background img msk))
      else if mode img \<notin> {''RGB'', ''L''} then convert lib img ''RGB''
      else Inr img)"

text \<open>\<^verbatim>\<open>int(n * scale_factor)\<close> for an int \<open>n\<close>.\<close>

definition scaled :: "(rat \<Rightarrow> rat) \<Rightarrow> nat \<Rightarrow> pyfloat \<Rightarrow> py_exception + int" where
  "scaled rnd n sf = bind_exc (int_mul_float rnd (int n) sf) py_int"

text \<open>
  Lines 163 to 176: the new dimensions and the scale factor they were computed from.
\<close>

definition new_dimensions ::
  "(rat \<Rightarrow> rat) \<Rightarrow> nat \<times> nat \<Rightarrow> pyfloat \<Rightarrow> py_exception + (int \<times> int) \<times> pyfloat" where
  "new_dimensions rnd sz sf =
     (let original_width = fst sz; original_height = snd sz in
      bind_exc (scaled rnd original_width sf) (\<lambda>new_width.
      bind_exc (scaled rnd original_height sf) (\<lambda>new_height.
      if new_width > MAX_DIMENSION \<or> new_height > MAX_DIMENSION then
        bind_exc (int_truediv rnd MAX_DIMENSION (int original_width)) (\<lambda>max_scale_w.
        bind_exc (int_truediv rnd MAX_DIMENSION (int original_height)) (\<lambda>max_scale_h.
        let sf' = py_min3 max_scale_w max_scale_h sf in
        bind_exc (scaled rnd original_width sf') (\<lambda>new_width.
        bind_exc (scaled rnd original_height sf') (\<lambda>new_height.
        Inr ((new_width, new_height), sf')))))
      else Inr ((new_width, new_height), sf))))"

text \<open>Lines 181 to 210: resize, sharpen, encode, and the metadata.\<close>

definition upscale_and_save ::
  "('px, 'z) pil_scheme \<Rightarrow> 'px image \<Rightarrow> (int \<times> int) \<times> pyfloat \<Rightarrow> py_exception + bytes \<times> metadata" where
  "upscale_and_save lib img dims =
     bind_exc (resize lib img (fst dims) BICUBIC) (\<lambda>upscaled_img.
     bind_exc (filter_UnsharpMask lib upscaled_img 1 150 3) (\<lambda>upscaled_img.
     bind_exc (save lib upscaled_img ''JPEG'' 95 True) (\<lambda>output.
     Inr (output,
          \<lparr>original_size = img_size img,
           processed_size = fst dims,
           scale_factor = snd dims,
           format = ''JPEG'',
           file_size_bytes = length output\<rparr>))))"

text \<open>
  The body of the \<^verbatim>\<open>try\<close> block, and the function: any exception raised in the body is
  turned into an \<^verbatim>\<open>HTTPException\<close> with status 422.
\<close>

definition process_image_body ::
  "(rat \<Rightarrow> rat) \<Rightarrow> ('px, 'z) pil_scheme \<Rightarrow> bytes \<Rightarrow> pyfloat \<Rightarrow> py_exception + bytes \<times> metadata" where
  "process_image_body rnd lib image_data sf =
     bind_exc (Image_open lib image_data) (\<lambda>img.
     bind_exc (convert_mode lib img) (\<lambda>img.
     bind_exc (new_dimensions rnd (img_size img) sf) (\<lambda>dims.
     upscale_and_save lib img dims)))"

definition process_image ::
  "(rat \<Rightarrow> rat) \<Rightarrow> ('px, 'z) pil_scheme \<Rightarrow> bytes \<Rightarrow> pyfloat \<Rightarrow> http_exception + bytes \<times> metadata" where
  "process_image rnd lib image_data sf =
     (case process_image_body rnd lib image_data sf of
        Inl e \<Rightarrow> Inl (HTTPException 422 (''Image processing failed: '' @ str_exc e))
      | Inr r \<Rightarrow> Inr r)"

section \<open>ImageProcessor.validate_image_file\<close>

text \<open>
  An upload as the endpoint sees it. \<open>declared_size\<close> tells the three cases of
  \<^verbatim>\<open>hasattr(file, 'size') and file.size > MAX_FILE_SIZE\<close> apart: the object has no
  \<^verbatim>\<open>size\<close> attribute, the attribute is \<^verbatim>\<open>None\<close>, or it is an int.
  \<open>read_result\<close> is what \<^verbatim>\<open>await file.read()\<close> returns or raises.
\<close>

datatype size_attr = AttrMissing | AttrNone | AttrInt nat

record UploadFile =
  filename :: "string option"
  declared_size :: size_attr
  content_type :: "string option"
  read_result :: "py_exception + bytes"

text \<open>
  \<^verbatim>\<open>str.lower\<close> on the ASCII letters (a \<open>char\<close> is a byte), and the extension part of
  \<^verbatim>\<open>os.path.splitext\<close> with the POSIX separator: the suffix of the last path component
  from its last dot, unless only dots stand before that dot.
\<close>

definition lower_char :: "char \<Rightarrow> char" where
  "lower_char c =
     (case map_of (zip ''ABCDEFGHIJKLMNOPQRSTUVWXYZ'' ''abcdefghijklmnopqrstuvwxyz'') c of
        None \<Rightarrow> c
      | Some l \<Rightarrow> l)"

definition py_lower :: "string \<Rightarrow> string" where
  "py_lower s = map lower_char s"

definition basename :: "string \<Rightarrow> string" where
  "basename p = rev (takeWhile (\<lambda>c. c \<noteq> CHR ''/'') (rev p))"

definition splitext_ext :: "string \<Rightarrow> string" where
  "splitext_ext p =
     (let b = basename p;
          e = rev (takeWhile (\<lambda>c. c \<noteq> CHR ''.'') (rev b));
          stem = take (length b - length e - 1) b
      in if CHR ''.'' \<in> set b \<and> dropWhile (\<lambda>c. c = CHR ''.'') stem \<noteq> [] then CHR ''.'' # e
         else [])"

text \<open>
  The body of the \<^verbatim>\<open>try\<close> block. The message of the extension check joins
  \<^verbatim>\<open>ALLOWED_EXTENSIONS\<close>, a Python set of strings: the order in which a process
  iterates it depends on the hash seed of the process. That order is the argument
  \<open>ext_order\<close> of the validator, and of every function that calls it; nothing is
  assumed of it.
\<close>

definition size_exceeds :: "UploadFile \<Rightarrow> py_exception + bool" where
  "size_exceeds file =
     (case declared_size file of
        AttrMissing \<Rightarrow> Inr False
      | AttrNone \<Rightarrow> Inl (TypeError ''> not supported between instances of NoneType and int'')
      | AttrInt n \<Rightarrow> Inr (n > MAX_FILE_SIZE))"

definition extension_rejected :: "UploadFile \<Rightarrow> bool" where
  "extension_rejected file =
     (case filename file of
        None \<Rightarrow> False
      | Some name \<Rightarrow> name \<noteq> [] \<and> splitext_ext (py_lower name) \<notin> set ALLOWED_EXTENSIONS)"

definition content_type_rejected :: "UploadFile \<Rightarrow> bool" where
  "content_type_rejected file =
     (case content_type file of
        None \<Rightarrow> True
      | Some ct \<Rightarrow> ct \<notin> set ALLOWED_MIME_TYPES)"

definition validate_image_file_body ::
  "string list \<Rightarrow> UploadFile \<Rightarrow> py_exception + bool \<times> string" where
  "validate_image_file_body ext_order file =
     bind_exc (size_exceeds file) (\<lambda>too_big.
       if too_big then Inr (False, ''File size exceeds maximum limit of 10MB'')
       else if extension_rejected file then
         Inr (False, ''Unsupported file format. Allowed: '' @ py_join '', '' ext_order)
       else if content_type_rejected file then
         Inr (False, ''Invalid content type. Expected image file.'')
       else Inr (True, []))"

definition validate_image_file :: "string list \<Rightarrow> UploadFile \<Rightarrow> bool \<times> string" where
  "validate_image_file ext_order file =
     (case validate_image_file_body ext_order file of
        Inl e \<Rightarrow> (False, ''File validation failed'')
      | Inr r \<Rightarrow> r)"

section \<open>Responses\<close>

text \<open>
  A response is its status, its media type, the headers the application sets (Starlette
  derives \<^verbatim>\<open>content-length\<close> and \<^verbatim>\<open>content-type\<close> from the body and the media type, and
  stores every header name in lower case), and its body. The value of
  \<^verbatim>\<open>X-Image-Metadata\<close> is \<^verbatim>\<open>str(metadata)\<close>; the model keeps the metadata itself.

  Starlette encodes every header value as latin-1 when the response is built, and that
  raises on a character above U+00FF. In UTF-8 such a character, and no other, has a
  byte of value 196 or more.
\<close>

datatype header_value = Str string | StrOfMetadata metadata

datatype body = JSONBody "(string \<times> string) list" | StreamBody bytes

record response =
  status :: nat
  media_type :: string
  headers :: "(string \<times> header_value) list"
  content :: body

definition JSONResponse :: "nat \<Rightarrow> (string \<times> string) list \<Rightarrow> response" where
  "JSONResponse code c =
     \<lparr>status = code, media_type = ''application/json'', headers = [], content = JSONBody c\<rparr>"

definition latin1_encodable :: "string \<Rightarrow> bool" where
  "latin1_encodable s = list_all (\<lambda>c. of_char c < (196 :: nat)) s"

fun header_encodable :: "header_value \<Rightarrow> bool" where
  "header_encodable (Str v) = latin1_encodable v"
| "header_encodable (StrOfMetadata md) = True"

definition StreamingResponse ::
  "bytes \<Rightarrow> string \<Rightarrow> (string \<times> header_value) list \<Rightarrow> py_exception + response" where
  "StreamingResponse b mt hs =
     (if list_all (\<lambda>kv. header_encodable (snd kv)) hs then
        Inr \<lparr>status = 200, media_type = mt,
             headers = map (\<lambda>kv. (py_lower (fst kv), snd kv)) hs, content = StreamBody b\<rparr>
      else Inl (UnicodeEncodeError ''latin-1 codec cannot encode characters''))"

text \<open>\<^verbatim>\<open>response.headers[k] = v\<close>: replace the header of that name, or append it.\<close>

definition set_header :: "string \<Rightarrow> string \<Rightarrow> response \<Rightarrow> response" where
  "set_header k v r =
     (let k' = py_lower k; hs = headers r in
      r\<lparr>headers :=
          (if k' \<in> fst ` set hs
           then map (\<lambda>kv. if fst kv = k' then (k', Str v) else kv) hs
           else hs @ [(k', Str v)])\<rparr>)"

definition get_header :: "response \<Rightarrow> string \<Rightarrow> header_value option" where
  "get_header r k = map_of (headers r) (py_lower k)"

section \<open>The endpoint \<^verbatim>\<open>POST /upscale\<close>\<close>

definition scale_factor_rejected :: "pyfloat \<Rightarrow> bool" where
  "scale_factor_rejected sf \<longleftrightarrow> fle sf (Finite 0) \<or> fgt sf (Finite 4)"

text \<open>
  The response of a successful request. Building it raises when the filename has a
  character above U+00FF; the endpoint catches that as it catches every exception other
  than an \<^verbatim>\<open>HTTPException\<close>, and answers with status 500.
\<close>

definition success_response ::
  "UploadFile \<Rightarrow> bytes \<Rightarrow> metadata \<Rightarrow> py_exception + response" where
  "success_response file processed_image md =
     (let name = (case filename file of None \<Rightarrow> ''None'' | Some n \<Rightarrow> n);
          output_filename = ''upscaled_'' @ name
      in StreamingResponse processed_image ''image/jpeg''
           [(''Content-Disposition'', Str (''attachment; filename='' @ output_filename)),
            (''X-Image-Metadata'', StrOfMetadata md),
            (''X-Original-Filename'',
               Str (case filename file of None \<Rightarrow> ''unknown''
                    | Some n \<Rightarrow> if n = [] then ''unknown'' else n)),
            (''X-Processing-Status'', Str ''success'')])"

definition upscale_image ::
  "(rat \<Rightarrow> rat) \<Rightarrow> ('px, 'z) pil_scheme \<Rightarrow> string list \<Rightarrow> UploadFile \<Rightarrow> pyfloat
     \<Rightarrow> http_exception + response" where
  "upscale_image rnd lib ext_order file sf =
     (if scale_factor_rejected sf then
        Inl (HTTPException 400 ''Scale factor must be between 0.1 and 4.0'')
      else case validate_image_file ext_order file of
        (False, error_message) \<Rightarrow> Inl (HTTPException 400 error_message)
      | (True, error_message) \<Rightarrow>
          (case read_result file of
             Inl e \<Rightarrow> Inl (HTTPException 500 ''Internal server error during image processing'')
           | Inr file_content \<Rightarrow>
               if length file_content > MAX_FILE_SIZE then
                 Inl (HTTPException 413 ''File too large. Maximum size: 10MB'')
               else case process_image rnd lib file_content sf of
                 Inl e \<Rightarrow> Inl e
               | Inr (processed_image, md) \<Rightarrow>
                   (case success_response file processed_image md of
                      Inl e \<Rightarrow>
                        Inl (HTTPException 500 ''Internal server error during image processing'')
                    | Inr response \<Rightarrow> Inr response)))"

text \<open>
  The handlers registered for the status codes 413 and 422, the framework's default
  handler for every other \<^verbatim>\<open>HTTPException\<close>, and the endpoint as the middleware calls it.
\<close>

definition file_too_large_handler :: "http_exception \<Rightarrow> response" where
  "file_too_large_handler exc =
     JSONResponse 413
       [(''detail'', ''File too large. Maximum size allowed: 10MB''),
        (''error_code'', ''FILE_TOO_LARGE'')]"

definition validation_error_handler :: "http_exception \<Rightarrow> response" where
  "validation_error_handler exc =
     JSONResponse 422
       [(''detail'', ''Validation error occurred''), (''error_code'', ''VALIDATION_ERROR'')]"

definition handle_http_exception :: "http_exception \<Rightarrow> response" where
  "handle_http_exception exc =
     (if status_code exc = 413 then file_too_large_handler exc
      else if status_code exc = 422 then validation_error_handler exc
      else JSONResponse (status_code exc) [(''detail'', detail exc)])"

definition upscale_endpoint ::
  "(rat \<Rightarrow> rat) \<Rightarrow> ('px, 'z) pil_scheme \<Rightarrow> string list \<Rightarrow> UploadFile \<times> pyfloat \<Rightarrow> response" where
  "upscale_endpoint rnd lib ext_order req =
     (case upscale_image rnd lib ext_order (fst req) (snd req) of
        Inl exc \<Rightarrow> handle_http_exception exc
      | Inr r \<Rightarrow> r)"

section \<open>The middleware: rate limit and security headers\<close>

text \<open>
  \<^verbatim>\<open>request_counts\<close> is a \<^verbatim>\<open>defaultdict(list)\<close>: a key that is absent reads as the empty
  list. The middleware takes the state, the value of \<^verbatim>\<open>time.time()\<close>, the client's
  address and the rest of the application, and returns the new state and the response.
\<close>

type_synonym request_counts = "string \<rightharpoonup> pyfloat list"

definition timestamps :: "request_counts \<Rightarrow> string \<Rightarrow> pyfloat list" where
  "timestamps rc client_ip = (case rc client_ip of None \<Rightarrow> [] | Some ts \<Rightarrow> ts)"

definition in_window :: "(rat \<Rightarrow> rat) \<Rightarrow> pyfloat \<Rightarrow> pyfloat \<Rightarrow> bool" where
  "in_window rnd now req_time = flt (fsub rnd now req_time) RATE_LIMIT_WINDOW"

definition security_headers :: "response \<Rightarrow> response" where
  "security_headers r =
     set_header ''Referrer-Policy'' ''strict-origin-when-cross-origin''
       (set_header ''Strict-Transport-Security'' ''max-age=31536000; includeSubDomains''
         (set_header ''X-XSS-Protection'' ''1; mode=block''
           (set_header ''X-Frame-Options'' ''DENY''
             (set_header ''X-Content-Type-Options'' ''nosniff'' r))))"

definition add_security_headers ::
  "(rat \<Rightarrow> rat) \<Rightarrow> ('req \<Rightarrow> response) \<Rightarrow> request_counts \<Rightarrow> pyfloat \<Rightarrow> string \<Rightarrow> 'req
     \<Rightarrow> request_counts \<times> response" where
  "add_security_headers rnd call_next rc now client_ip request =
     (let kept = filter (in_window rnd now) (timestamps rc client_ip);
          rc = rc(client_ip \<mapsto> kept)
      in if length kept \<ge> RATE_LIMIT_REQUESTS then
           (rc, JSONResponse 429 [(''detail'', ''Rate limit exceeded. Please try again later.'')])
         else
           (rc(client_ip \<mapsto> kept @ [now]), security_headers (call_next request)))"


section \<open>The computation the specification describes\<close>

text \<open>
  \<open>floor(n * s)\<close> in float arithmetic: the int is converted, the product is rounded,
  the result is floored. And the clamped factor \<open>min(4000 / w, 4000 / h, s)\<close>, each
  quotient rounded.
\<close>

definition spec_dimension :: "(rat \<Rightarrow> rat) \<Rightarrow> nat \<Rightarrow> rat \<Rightarrow> int" where
  "spec_dimension rnd n s = \<lfloor>rnd (rnd (of_nat n) * s)\<rfloor>"

definition spec_clamped_factor :: "(rat \<Rightarrow> rat) \<Rightarrow> nat \<Rightarrow> nat \<Rightarrow> rat \<Rightarrow> rat" where
  "spec_clamped_factor rnd w h s = min (rnd (4000 / of_nat w)) (min (rnd (4000 / of_nat h)) s)"

text \<open>
  The effective factor: the requested one unless a dimension computed from it exceeds
  4000, the clamped one otherwise.
\<close>

definition spec_effective_factor :: "(rat \<Rightarrow> rat) \<Rightarrow> nat \<Rightarrow> nat \<Rightarrow> rat \<Rightarrow> rat" where
  "spec_effective_factor rnd w h s =
     (if spec_dimension rnd w s \<le> 4000 \<and> spec_dimension rnd h s \<le> 4000 then s
      else spec_clamped_factor rnd w h s)"

text \<open>
  The validator as the specification words it: three checks in a fixed order, the first
  that fails decides, and a file that fails none is valid.
\<close>

definition spec_checks :: "string list \<Rightarrow> ((UploadFile \<Rightarrow> bool) \<times> string) list" where
  "spec_checks ext_order =
     [(\<lambda>file. case declared_size file of AttrInt n \<Rightarrow> n > MAX_FILE_SIZE | _ \<Rightarrow> False,
       ''File size exceeds maximum limit of 10MB''),
      (extension_rejected, ''Unsupported file format. Allowed: '' @ py_join '', '' ext_order),
      (content_type_rejected, ''Invalid content type. Expected image file.'')]"

fun first_failure :: "((UploadFile \<Rightarrow> bool) \<times> string) list \<Rightarrow> UploadFile \<Rightarrow> bool \<times> string" where
  "first_failure [] file = (True, [])"
| "first_failure (c # cs) file = (if fst c file then (False, snd c) else first_failure cs file)"

definition spec_validate :: "string list \<Rightarrow> UploadFile \<Rightarrow> bool \<times> string" where
  "spec_validate ext_order file = first_failure (spec_checks ext_order) file"



section \<open>A toy imaging library\<close>

text \<open>
  An instance of the library's interface for concrete runs. It decodes every non-empty
  payload to the image it is given, refuses the empty payload, refuses to resize to a
  size with a side below 1 (as Pillow does), and names in the pixel store the operation
  that produced it.
\<close>

definition toy_pil :: "string image \<Rightarrow> string pil" where
  "toy_pil decoded =
     \<lparr>Image_open = (\<lambda>d. if d = [] then Inl (OSError ''cannot identify image file'') else Inr decoded),
      new_pixels = (\<lambda>m sz c. Inr ''white''),
      split = (\<lambda>im. Inr (map (\<lambda>c. \<lparr>mode = ''L'', img_size = img_size im, pixels = [c]\<rparr>) (mode im))),
      paste_pixels = (\<lambda>bg im msk. Inr (pixels im @ '' over '' @ pixels bg @ '' by '' @ pixels msk)),
      convert = (\<lambda>im m. Inr (im\<lparr>mode := m\<rparr>)),
      resize = (\<lambda>im sz f.
        if fst sz < 1 \<or> snd sz < 1 then Inl (ValueError ''height and width must be > 0'')
        else Inr (im\<lparr>img_size := (nat (fst sz), nat (snd sz))\<rparr>)),
      filter_UnsharpMask = (\<lambda>im radius percent threshold. Inr im),
      save = (\<lambda>im fmt quality optimize. Inr (''JPEG:'' @ pixels im))\<rparr>"

definition rgb_image :: "nat \<Rightarrow> nat \<Rightarrow> string image" where
  "rgb_image w h = \<lparr>mode = ''RGB'', img_size = (w, h), pixels = ''rgb''\<rparr>"

definition png_upload :: "bytes \<Rightarrow> UploadFile" where
  "png_upload b =
     \<lparr>filename = Some ''photo.PNG'', declared_size = AttrInt (length b),
      content_type = Some ''image/png'', read_result = Inr b\<rparr>"


definition sizeless_upload :: UploadFile where
  "sizeless_upload =
     \<lparr>filename = Some ''photo.PNG'', declared_size = AttrMissing,
      content_type = Some ''image/png'', read_result = Inr ''x''\<rparr>"

definition rgba_image :: "nat \<Rightarrow> nat \<Rightarrow> string image" where
  "rgba_image w h = \<lparr>mode = ''RGBA'', img_size = (w, h), pixels = ''rgba''\<rparr>"

section \<open>Facts about rounding\<close>

lemma DBL_MIN_pos: "0 < DBL_MIN" by (simp add: DBL_MIN_def)
lemma DBL_MIN_le_one: "DBL_MIN \<le> 1" by (simp add: DBL_MIN_def)
lemma DBL_EPSILON_pos: "0 < DBL_EPSILON" by (simp add: DBL_EPSILON_def)
lemma DBL_MIN_MAX: "DBL_MAX * DBL_MIN \<le> 4" by (simp add: DBL_MIN_def DBL_MAX_def)

lemma rnd_nonneg:
  assumes "binary64_rounding rnd" "0 \<le> x"
  shows "0 \<le> rnd x"
proof -
  from assms(1) have "rnd 0 = 0" and mono: "\<And>x y. x \<le> y \<Longrightarrow> rnd x \<le> rnd y"
    by (auto simp: binary64_rounding_def)
  with mono [OF assms(2)] show ?thesis by simp
qed

lemma rnd_mono:
  assumes "binary64_rounding rnd" "x \<le> y"
  shows "rnd x \<le> rnd y"
  using assms by (auto simp: binary64_rounding_def)

lemma rnd_upper:
  assumes "binary64_rounding rnd" "DBL_MIN \<le> x"
  shows "rnd x \<le> x * (1 + DBL_EPSILON / 2)"
proof -
  have x: "0 < x" using assms(2) DBL_MIN_pos by linarith
  from assms have "2 * \<bar>rnd x - x\<bar> \<le> DBL_EPSILON * \<bar>x\<bar>"
    by (auto simp: binary64_rounding_def)
  with x have "2 * (rnd x - x) \<le> DBL_EPSILON * x" by (simp add: abs_if split: if_splits)
  then show ?thesis by (simp add: algebra_simps)
qed

lemma rnd_lower:
  assumes "binary64_rounding rnd" "DBL_MIN \<le> x"
  shows "x * (1 - DBL_EPSILON / 2) \<le> rnd x"
proof -
  have x: "0 < x" using assms(2) DBL_MIN_pos by linarith
  from assms have "2 * \<bar>rnd x - x\<bar> \<le> DBL_EPSILON * \<bar>x\<bar>"
    by (auto simp: binary64_rounding_def)
  with x have "2 * (x - rnd x) \<le> DBL_EPSILON * x" by (simp add: abs_if split: if_splits)
  then show ?thesis by (simp add: algebra_simps)
qed

lemma near_4000:
  assumes r: "binary64_rounding rnd" and x: "x \<le> 4000 * (1 + DBL_EPSILON / 2) ^ 2"
  shows "rnd x < 4001"
proof -
  let ?b = "4000 * (1 + DBL_EPSILON / 2) ^ 2"
  have "(1::rat) \<le> (1 + DBL_EPSILON / 2) ^ 2"
    using DBL_EPSILON_pos by (intro one_le_power) simp
  then have "DBL_MIN \<le> ?b" using DBL_MIN_le_one by linarith
  from rnd_upper [OF r this] have "rnd ?b \<le> ?b * (1 + DBL_EPSILON / 2)" .
  also have "\<dots> < 4001" by (simp add: DBL_EPSILON_def power2_eq_square)
  finally have "rnd ?b < 4001" .
  with rnd_mono [OF r x] show ?thesis by linarith
qed


lemma scaled_FiniteD:
  assumes "scaled rnd n (Finite s) = Inr k"
  shows "\<bar>rnd (of_nat n)\<bar> \<le> DBL_MAX"
    and "\<bar>rnd (rnd (of_nat n) * s)\<bar> \<le> DBL_MAX"
    and "k = (if 0 \<le> rnd (rnd (of_nat n) * s) then \<lfloor>rnd (rnd (of_nat n) * s)\<rfloor>
              else \<lceil>rnd (rnd (of_nat n) * s)\<rceil>)"
  using assms
  by (auto simp: scaled_def int_mul_float_def float_of_int_def bind_exc_def to_float_def Let_def
      split: if_splits)

lemma int_truediv_FiniteD:
  assumes "int_truediv rnd a (int n) = Inr q"
  shows "0 < n" and "q = Finite (rnd (of_int a / of_nat n))"
  using assms by (auto simp: int_truediv_def Let_def split: if_splits)

lemma float_of_nat_normal:
  assumes r: "binary64_rounding rnd" and n: "0 < n" and b: "\<bar>rnd (of_nat n)\<bar> \<le> DBL_MAX"
  shows "DBL_MIN \<le> 4000 / of_nat n"
proof -
  have n1: "(1::rat) \<le> of_nat n" using n by simp
  then have "DBL_MIN \<le> of_nat n" using DBL_MIN_le_one by linarith
  from rnd_lower [OF r this] b have "of_nat n * (1 - DBL_EPSILON / 2) \<le> DBL_MAX" by linarith
  moreover have "of_nat n / 2 \<le> of_nat n * (1 - DBL_EPSILON / 2)"
    using n1 by (simp add: DBL_EPSILON_def algebra_simps)
  ultimately have "of_nat n \<le> 2 * DBL_MAX" by linarith
  then have "of_nat n * DBL_MIN \<le> 2 * DBL_MAX * DBL_MIN"
    using DBL_MIN_pos by (simp add: mult_right_mono)
  with DBL_MIN_MAX have "of_nat n * DBL_MIN \<le> 4000" by linarith
  with n1 show ?thesis by (simp add: pos_le_divide_eq mult.commute)
qed

lemma scaled_clamped:
  assumes r: "binary64_rounding rnd"
    and q: "int_truediv rnd MAX_DIMENSION (int n) = Inr (Finite q)"
    and s: "0 \<le> s" "s \<le> q"
    and k: "scaled rnd n (Finite s) = Inr k"
  shows "k = \<lfloor>rnd (rnd (of_nat n) * s)\<rfloor> \<and> 0 \<le> k \<and> k \<le> 4000"
proof -
  let ?u = "1 + DBL_EPSILON / 2"
  let ?n = "of_nat n :: rat"
  from int_truediv_FiniteD [OF q] have n: "0 < n" and qeq: "q = rnd (4000 / ?n)"
    by (simp_all add: MAX_DIMENSION_def)
  have n1: "1 \<le> ?n" using n by simp
  from scaled_FiniteD [OF k] have fb: "\<bar>rnd ?n\<bar> \<le> DBL_MAX"
    and keq: "k = (if 0 \<le> rnd (rnd ?n * s) then \<lfloor>rnd (rnd ?n * s)\<rfloor> else \<lceil>rnd (rnd ?n * s)\<rceil>)"
    by blast+
  have fw0: "0 \<le> rnd ?n" using rnd_nonneg [OF r] n1 by simp
  have fw: "rnd ?n \<le> ?n * ?u"
    using rnd_upper [OF r] DBL_MIN_le_one n1 by simp
  have "q \<le> 4000 / ?n * ?u"
    unfolding qeq by (rule rnd_upper [OF r float_of_nat_normal [OF r n fb]])
  with s have su: "s \<le> 4000 / ?n * ?u" by linarith
  have "rnd ?n * s \<le> (?n * ?u) * (4000 / ?n * ?u)"
    using fw su fw0 s(1) by (intro mult_mono) (auto intro: order_trans)
  also have "\<dots> = 4000 * ?u ^ 2"
    using n1 by (simp add: power2_eq_square)
  finally have ub: "rnd (rnd ?n * s) < 4001" by (rule near_4000 [OF r])
  have "0 \<le> rnd ?n * s" using fw0 s(1) by simp
  then have lb: "0 \<le> rnd (rnd ?n * s)" by (rule rnd_nonneg [OF r])
  from lb keq have "k = \<lfloor>rnd (rnd ?n * s)\<rfloor>" by simp
  moreover from lb have "0 \<le> \<lfloor>rnd (rnd ?n * s)\<rfloor>" by simp
  moreover from ub have "\<lfloor>rnd (rnd ?n * s)\<rfloor> \<le> 4000" by (simp add: floor_le_iff)
  ultimately show ?thesis by simp
qed

section \<open>Facts about the model\<close>

lemma py_min3_Finite: "py_min3 (Finite a) (Finite b) (Finite c) = Finite (min a (min b c))"
  by (auto simp: py_min3_def Let_def min_def)

lemma accepted_cases:
  assumes "\<not> scale_factor_rejected sf"
  shows "sf = NaN \<or> (\<exists>s. sf = Finite s \<and> 0 < s \<and> s \<le> 4)"
  using assms by (cases sf) (auto simp: scale_factor_rejected_def fle_def fgt_def)

lemma scaled_NaN: "scaled rnd n NaN \<noteq> Inr k"
  by (auto simp: scaled_def int_mul_float_def float_of_int_def bind_exc_def Let_def)

lemma new_dimensions_NaN: "new_dimensions rnd sz NaN \<noteq> Inr r"
  by (auto simp: new_dimensions_def Let_def bind_exc_def scaled_NaN split: sum.splits)

lemma process_image_InrD:
  assumes "process_image rnd lib image_data sf = Inr (out, md)"
  shows "\<exists>decoded img dims upscaled sharpened.
           Image_open lib image_data = Inr decoded \<and>
           convert_mode lib decoded = Inr img \<and>
           new_dimensions rnd (img_size img) sf = Inr dims \<and>
           resize lib img (fst dims) BICUBIC = Inr upscaled \<and>
           filter_UnsharpMask lib upscaled 1 150 3 = Inr sharpened \<and>
           save lib sharpened ''JPEG'' 95 True = Inr out \<and>
           md = \<lparr>original_size = img_size img, processed_size = fst dims,
                 scale_factor = snd dims, format = ''JPEG'', file_size_bytes = length out\<rparr>"
  using assms
  by (auto simp: process_image_def process_image_body_def upscale_and_save_def bind_exc_def
      split: sum.splits)

lemma scaled_nonneg:
  assumes r: "binary64_rounding rnd" and s: "0 \<le> s" and k: "scaled rnd n (Finite s) = Inr k"
  shows "k = spec_dimension rnd n s" and "0 \<le> k"
proof -
  have "0 \<le> rnd (of_nat n)" by (rule rnd_nonneg [OF r]) simp
  with s have "0 \<le> rnd (of_nat n) * s" by simp
  then have "0 \<le> rnd (rnd (of_nat n) * s)" by (rule rnd_nonneg [OF r])
  with scaled_FiniteD(3) [OF k] show "k = spec_dimension rnd n s" and "0 \<le> k"
    by (simp_all add: spec_dimension_def)
qed

lemma new_dimensions_cases:
  assumes ok: "new_dimensions rnd (w, h) sf = Inr ((nw, nh), sf')"
  obtains (unclamped) "scaled rnd w sf = Inr nw" "scaled rnd h sf = Inr nh" "sf' = sf"
      "nw \<le> 4000" "nh \<le> 4000"
    | (clamped) k1 k2 qw qh where "scaled rnd w sf = Inr k1" "scaled rnd h sf = Inr k2"
      "4000 < k1 \<or> 4000 < k2"
      "int_truediv rnd MAX_DIMENSION (int w) = Inr qw"
      "int_truediv rnd MAX_DIMENSION (int h) = Inr qh"
      "sf' = py_min3 qw qh sf"
      "scaled rnd w sf' = Inr nw" "scaled rnd h sf' = Inr nh"
  using ok
  by (auto simp: new_dimensions_def Let_def bind_exc_def MAX_DIMENSION_def
      split: sum.splits if_splits)

lemma new_dimensions_accepted:
  assumes r: "binary64_rounding rnd" and s: "0 \<le> s"
    and ok: "new_dimensions rnd (w, h) (Finite s) = Inr ((nw, nh), sf')"
  shows "if spec_dimension rnd w s \<le> 4000 \<and> spec_dimension rnd h s \<le> 4000
         then sf' = Finite s
         else 0 < w \<and> 0 < h \<and> sf' = Finite (spec_clamped_factor rnd w h s)"
    and "\<exists>s'. sf' = Finite s' \<and> 0 \<le> s' \<and>
           nw = spec_dimension rnd w s' \<and> nh = spec_dimension rnd h s'"
    and "0 \<le> nw \<and> nw \<le> 4000 \<and> 0 \<le> nh \<and> nh \<le> 4000"
proof -
  from ok have "(if spec_dimension rnd w s \<le> 4000 \<and> spec_dimension rnd h s \<le> 4000
         then sf' = Finite s
         else 0 < w \<and> 0 < h \<and> sf' = Finite (spec_clamped_factor rnd w h s)) \<and>
     (\<exists>s'. sf' = Finite s' \<and> 0 \<le> s' \<and>
           nw = spec_dimension rnd w s' \<and> nh = spec_dimension rnd h s') \<and>
     (0 \<le> nw \<and> nw \<le> 4000 \<and> 0 \<le> nh \<and> nh \<le> 4000)"
  proof (cases rule: new_dimensions_cases)
    case unclamped
    from scaled_nonneg [OF r s unclamped(1)] scaled_nonneg [OF r s unclamped(2)] unclamped(3-5) s
    show ?thesis by auto
  next
    case (clamped k1 k2 qw qh)
    from scaled_nonneg [OF r s clamped(1)] scaled_nonneg [OF r s clamped(2)] clamped(3)
    have big: "\<not> (spec_dimension rnd w s \<le> 4000 \<and> spec_dimension rnd h s \<le> 4000)"
      by auto
    from int_truediv_FiniteD [OF clamped(4)] have w: "0 < w"
      and qw: "qw = Finite (rnd (4000 / of_nat w))" by (simp_all add: MAX_DIMENSION_def)
    from int_truediv_FiniteD [OF clamped(5)] have h: "0 < h"
      and qh: "qh = Finite (rnd (4000 / of_nat h))" by (simp_all add: MAX_DIMENSION_def)
    let ?s = "spec_clamped_factor rnd w h s"
    have sf': "sf' = Finite ?s"
      by (simp add: clamped(6) qw qh py_min3_Finite spec_clamped_factor_def)
    have "0 \<le> rnd (4000 / of_nat w)" "0 \<le> rnd (4000 / of_nat h)"
      by (rule rnd_nonneg [OF r], simp)+
    with s have s0: "0 \<le> ?s" by (simp add: spec_clamped_factor_def)
    have sw: "?s \<le> rnd (4000 / of_nat w)" and sh: "?s \<le> rnd (4000 / of_nat h)"
      by (simp_all add: spec_clamped_factor_def)
    from scaled_clamped [OF r clamped(4) [unfolded qw] s0 sw clamped(7) [unfolded sf']]
    have nw: "nw = spec_dimension rnd w ?s" "0 \<le> nw" "nw \<le> 4000"
      unfolding spec_dimension_def by blast+
    from scaled_clamped [OF r clamped(5) [unfolded qh] s0 sh clamped(8) [unfolded sf']]
    have nh: "nh = spec_dimension rnd h ?s" "0 \<le> nh" "nh \<le> 4000"
      unfolding spec_dimension_def by blast+
    from big w h sf' s0 nw nh show ?thesis by auto
  qed
  then show "if spec_dimension rnd w s \<le> 4000 \<and> spec_dimension rnd h s \<le> 4000
         then sf' = Finite s
         else 0 < w \<and> 0 < h \<and> sf' = Finite (spec_clamped_factor rnd w h s)"
    and "\<exists>s'. sf' = Finite s' \<and> 0 \<le> s' \<and>
           nw = spec_dimension rnd w s' \<and> nh = spec_dimension rnd h s'"
    and "0 \<le> nw \<and> nw \<le> 4000 \<and> 0 \<le> nh \<and> nh \<le> 4000"
    by blast+
qed

lemma exact_rounding: "binary64_rounding (\<lambda>x. x)"
  by (simp add: binary64_rounding_def DBL_EPSILON_def)

lemma spec_dimension_small:
  assumes r: "binary64_rounding rnd" and s: "0 \<le> s" and b: "of_nat n * s \<le> 4000"
  shows "spec_dimension rnd n s \<le> 4000"
proof -
  let ?u = "1 + DBL_EPSILON / 2"
  have u: "1 \<le> ?u" using DBL_EPSILON_pos by simp
  have "rnd (of_nat n) \<le> of_nat n * ?u"
  proof (cases "n = 0")
    case True
    with r show ?thesis by (simp add: binary64_rounding_def)
  next
    case False
    then have "DBL_MIN \<le> of_nat n" using DBL_MIN_le_one by (simp add: order_trans)
    then show ?thesis by (rule rnd_upper [OF r])
  qed
  then have "rnd (of_nat n) * s \<le> (of_nat n * ?u) * s" using s by (rule mult_right_mono)
  also have "\<dots> = (of_nat n * s) * ?u" by simp
  also have "\<dots> \<le> 4000 * ?u" using b u by (intro mult_right_mono) simp_all
  also have "\<dots> \<le> 4000 * ?u ^ 2"
  proof -
    have "?u * 1 \<le> ?u * ?u" using u by (intro mult_left_mono) simp_all
    then show ?thesis by (simp add: power2_eq_square)
  qed
  finally have "rnd (rnd (of_nat n) * s) < 4001" by (rule near_4000 [OF r])
  then show ?thesis by (simp add: spec_dimension_def floor_le_iff)
qed

lemma toy_run_200:
  "process_image (\<lambda>x. x) (toy_pil (rgb_image 100 100)) ''x'' (Finite 2) =
     Inr (''JPEG:rgb'',
          \<lparr>original_size = (100, 100), processed_size = (200, 200), scale_factor = Finite 2,
           format = ''JPEG'', file_size_bytes = 8\<rparr>)"
  by (simp add: process_image_def process_image_body_def upscale_and_save_def bind_exc_def
      convert_mode_def new_dimensions_def scaled_def int_mul_float_def float_of_int_def
      to_float_def py_min3_def int_truediv_def toy_pil_def rgb_image_def Let_def
      DBL_MAX_def MAX_DIMENSION_def)

lemma toy_run_clamped:
  "process_image (\<lambda>x. x) (toy_pil (rgb_image 3000 1500)) ''x'' (Finite 2) =
     Inr (''JPEG:rgb'',
          \<lparr>original_size = (3000, 1500), processed_size = (4000, 2000),
           scale_factor = Finite (4 / 3),
           format = ''JPEG'', file_size_bytes = 8\<rparr>)"
  by (simp add: process_image_def process_image_body_def upscale_and_save_def bind_exc_def
      convert_mode_def new_dimensions_def scaled_def int_mul_float_def float_of_int_def
      to_float_def py_min3_def int_truediv_def toy_pil_def rgb_image_def Let_def
      DBL_MAX_def MAX_DIMENSION_def)

section \<open>No clamping below the bound\<close>

text \<open>
  C8. For a scale factor \<open>s\<close> in (0, 4] and an image of size \<open>w\<close> by \<open>h\<close> with
  \<open>w * s \<le> 4000\<close> and \<open>h * s \<le> 4000\<close> (exact products), a result of \<open>process_image\<close>
  reports the factor \<open>s\<close> itself and the size \<open>floor(w * s)\<close> by \<open>floor(h * s)\<close>
  (float products).
\<close>

theorem no_clamping_within_bound:
  assumes r: "binary64_rounding rnd"
    and s: "0 < s" "s \<le> 4"
    and ok: "process_image rnd lib image_data (Finite s) = Inr (out, md)"
    and sz: "original_size md = (w, h)"
    and fit: "of_nat w * s \<le> 4000" "of_nat h * s \<le> 4000"
  shows "scale_factor md = Finite s \<and>
         processed_size md = (spec_dimension rnd w s, spec_dimension rnd h s)"
proof -
  from process_image_InrD [OF ok] obtain decoded img dims
    where "convert_mode lib decoded = Inr img"
      and nd: "new_dimensions rnd (img_size img) (Finite s) = Inr dims"
      and md: "original_size md = img_size img" "processed_size md = fst dims"
        "scale_factor md = snd dims"
    by auto
  obtain nw nh sf' where dims: "dims = ((nw, nh), sf')" by (cases dims) auto
  have s0: "0 \<le> s" using s(1) by simp
  have small: "spec_dimension rnd w s \<le> 4000 \<and> spec_dimension rnd h s \<le> 4000"
    using spec_dimension_small [OF r s0] fit by blast
  from md(1) sz have wh: "img_size img = (w, h)" by simp
  note nd' = nd [unfolded wh dims]
  from new_dimensions_accepted(1) [OF r s0 nd'] small have sf': "sf' = Finite s" by simp
  from new_dimensions_accepted(2) [OF r s0 nd'] sf'
  have "nw = spec_dimension rnd w s" "nh = spec_dimension rnd h s" by auto
  with sf' md dims show ?thesis by simp
qed

theorem no_clamping_within_bound_witness:
  "binary64_rounding (\<lambda>x. x) \<and> (0::rat) < 2 \<and> (2::rat) \<le> 4 \<and>
   process_image (\<lambda>x. x) (toy_pil (rgb_image 100 100)) ''x'' (Finite 2) =
     Inr (''JPEG:rgb'',
          \<lparr>original_size = (100, 100), processed_size = (200, 200), scale_factor = Finite 2,
           format = ''JPEG'', file_size_bytes = 8\<rparr>) \<and>
   of_nat 100 * (2::rat) \<le> 4000 \<and>
   spec_dimension (\<lambda>x. x) 100 2 = 200"
proof -
  have "of_nat 100 * (2::rat) \<le> 4000" by simp
  from no_clamping_within_bound [OF exact_rounding _ _ toy_run_200 _ this this]
  have "spec_dimension (\<lambda>x. x) 100 2 = 200" by simp
  with exact_rounding toy_run_200 show ?thesis by simp
qed

section \<open>Order of the validation checks\<close>

lemma sizeless_upload_checks:
  "declared_size sizeless_upload = AttrMissing"
  "\<not> extension_rejected sizeless_upload"
  "\<not> content_type_rejected sizeless_upload"
  by (simp_all add: sizeless_upload_def extension_rejected_def content_type_rejected_def
      ALLOWED_EXTENSIONS_def ALLOWED_MIME_TYPES_def py_lower_def lower_char_def
      splitext_ext_def basename_def Let_def)

text \<open>
  Unless the \<^verbatim>\<open>size\<close> attribute is \<^verbatim>\<open>None\<close>, \<open>validate_image_file\<close> is the first
  failure among the size check, the extension check and the MIME check, in this order.
  A file without a \<^verbatim>\<open>size\<close> attribute passes the size check: it is accepted when the
  extension and MIME checks pass.
\<close>

lemma validate_image_file_first_failure:
  "(declared_size file \<noteq> AttrNone \<longrightarrow>
      validate_image_file ext_order file = spec_validate ext_order file) \<and>
   (declared_size file = AttrMissing \<and> \<not> extension_rejected file \<and>
      \<not> content_type_rejected file \<longrightarrow> validate_image_file ext_order file = (True, [])) \<and>
   (declared_size file = AttrMissing \<and> extension_rejected file \<longrightarrow>
      validate_image_file ext_order file =
        (False, ''Unsupported file format. Allowed: '' @ py_join '', '' ext_order)) \<and>
   (declared_size file = AttrMissing \<and> \<not> extension_rejected file \<and>
      content_type_rejected file \<longrightarrow>
      validate_image_file ext_order file =
        (False, ''Invalid content type. Expected image file.'')) \<and>
   (declared_size file = AttrNone \<longrightarrow>
      validate_image_file ext_order file = (False, ''File validation failed''))"
proof (cases "declared_size file")
  case AttrMissing
  then show ?thesis
    by (simp add: validate_image_file_def validate_image_file_body_def size_exceeds_def
        bind_exc_def spec_validate_def spec_checks_def)
next
  case AttrNone
  then show ?thesis
    by (simp add: validate_image_file_def validate_image_file_body_def size_exceeds_def
        bind_exc_def)
next
  case (AttrInt n)
  then show ?thesis
    by (simp add: validate_image_file_def validate_image_file_body_def size_exceeds_def
        bind_exc_def spec_validate_def spec_checks_def)
qed

lemma sizeless_upload_accepted:
  "validate_image_file ext_order sizeless_upload = (True, [])"
  using validate_image_file_first_failure [of sizeless_upload ext_order] sizeless_upload_checks
  by blast



section \<open>Failures of the transform\<close>

lemma process_image_body_Inl_iff:
  "process_image_body rnd lib image_data sf = Inl e \<longleftrightarrow>
     Image_open lib image_data = Inl e \<or>
     (\<exists>decoded. Image_open lib image_data = Inr decoded \<and>
        (convert_mode lib decoded = Inl e \<or>
         (\<exists>img. convert_mode lib decoded = Inr img \<and>
            (new_dimensions rnd (img_size img) sf = Inl e \<or>
             (\<exists>dims. new_dimensions rnd (img_size img) sf = Inr dims \<and>
                (resize lib img (fst dims) BICUBIC = Inl e \<or>
                 (\<exists>upscaled. resize lib img (fst dims) BICUBIC = Inr upscaled \<and>
                    (filter_UnsharpMask lib upscaled 1 150 3 = Inl e \<or>
                     (\<exists>sharpened. filter_UnsharpMask lib upscaled 1 150 3 = Inr sharpened \<and>
                        save lib sharpened ''JPEG'' 95 True = Inl e)))))))))"
  by (auto simp: process_image_body_def upscale_and_save_def bind_exc_def split: sum.splits)

lemma process_image_Inl:
  assumes "process_image_body rnd lib image_data sf = Inl e"
  shows "process_image rnd lib image_data sf =
           Inl (HTTPException 422 (''Image processing failed: '' @ str_exc e))"
  using assms by (simp add: process_image_def)

lemma upscale_image_processes:
  assumes "\<not> scale_factor_rejected sf"
    and "validate_image_file ext_order file = (True, msg)"
    and "read_result file = Inr file_content"
    and "length file_content \<le> MAX_FILE_SIZE"
  shows "upscale_image rnd lib ext_order file sf =
           (case process_image rnd lib file_content sf of
              Inl exc \<Rightarrow> Inl exc
            | Inr r \<Rightarrow>
                (case success_response file (fst r) (snd r) of
                   Inl e \<Rightarrow>
                     Inl (HTTPException 500 ''Internal server error during image processing'')
                 | Inr response \<Rightarrow> Inr response))"
  using assms by (auto simp: upscale_image_def split: sum.splits)

lemma upscale_endpoint_422:
  assumes "upscale_image rnd lib ext_order file sf = Inl (HTTPException 422 d)"
  shows "upscale_endpoint rnd lib ext_order (file, sf) =
           JSONResponse 422
             [(''detail'', ''Validation error occurred''), (''error_code'', ''VALIDATION_ERROR'')]"
  using assms
  by (simp add: upscale_endpoint_def handle_http_exception_def validation_error_handler_def)

lemma png_upload_valid:
  assumes "length b \<le> MAX_FILE_SIZE"
  shows "validate_image_file ext_order (png_upload b) = (True, [])"
  using assms
  by (simp add: validate_image_file_def validate_image_file_body_def png_upload_def size_exceeds_def
     extension_rejected_def content_type_rejected_def bind_exc_def
     ALLOWED_EXTENSIONS_def ALLOWED_MIME_TYPES_def
     py_lower_def lower_char_def splitext_ext_def basename_def Let_def)

lemma accepted_2: "\<not> scale_factor_rejected (Finite 2)"
  by (simp add: scale_factor_rejected_def fle_def fgt_def)

text \<open>
  C6. A request whose scale factor and file pass every check, and whose transform raises
  at any stage (decoding, conversion by mode, the computation of the dimensions, resize,
  sharpening filter, encoding), ends in the \<^verbatim>\<open>HTTPException\<close> with status 422 whose
  detail is \<^verbatim>\<open>Image processing failed:\<close> followed by the cause. The endpoint returns
  no response of its own, so no image and no status 500; the response the client gets
  has status 422 and the JSON body of the handler registered for 422.
\<close>

theorem transform_failure_is_422:
  assumes acc: "\<not> scale_factor_rejected sf"
    and valid: "validate_image_file ext_order file = (True, msg)"
    and rd: "read_result file = Inr file_content"
    and len: "length file_content \<le> MAX_FILE_SIZE"
    and fails:
      "Image_open lib file_content = Inl e \<or>
       (\<exists>decoded. Image_open lib file_content = Inr decoded \<and>
          (convert_mode lib decoded = Inl e \<or>
           (\<exists>img. convert_mode lib decoded = Inr img \<and>
              (new_dimensions rnd (img_size img) sf = Inl e \<or>
               (\<exists>dims. new_dimensions rnd (img_size img) sf = Inr dims \<and>
                  (resize lib img (fst dims) BICUBIC = Inl e \<or>
                   (\<exists>upscaled. resize lib img (fst dims) BICUBIC = Inr upscaled \<and>
                      (filter_UnsharpMask lib upscaled 1 150 3 = Inl e \<or>
                       (\<exists>sharpened. filter_UnsharpMask lib upscaled 1 150 3 = Inr sharpened \<and>
                          save lib sharpened ''JPEG'' 95 True = Inl e)))))))))"
  shows "upscale_image rnd lib ext_order file sf =
           Inl (HTTPException 422 (''Image processing failed: '' @ str_exc e)) \<and>
         status (upscale_endpoint rnd lib ext_order (file, sf)) = 422 \<and>
         content (upscale_endpoint rnd lib ext_order (file, sf)) =
           JSONBody [(''detail'', ''Validation error occurred''),
                     (''error_code'', ''VALIDATION_ERROR'')]"
proof -
  from fails have "process_image_body rnd lib file_content sf = Inl e"
    by (simp only: process_image_body_Inl_iff)
  then have "process_image rnd lib file_content sf =
      Inl (HTTPException 422 (''Image processing failed: '' @ str_exc e))"
    by (rule process_image_Inl)
  with upscale_image_processes [OF acc valid rd len, of rnd lib]
  have up: "upscale_image rnd lib ext_order file sf =
      Inl (HTTPException 422 (''Image processing failed: '' @ str_exc e))"
    by simp
  from upscale_endpoint_422 [OF up] up show ?thesis
    by (simp add: JSONResponse_def)
qed

theorem transform_failure_is_422_witness:
  "\<not> scale_factor_rejected (Finite 2) \<and>
   validate_image_file ALLOWED_EXTENSIONS (png_upload []) = (True, []) \<and>
   read_result (png_upload []) = Inr [] \<and>
   Image_open (toy_pil (rgb_image 100 100)) [] = Inl (OSError ''cannot identify image file'') \<and>
   upscale_image (\<lambda>x. x) (toy_pil (rgb_image 100 100)) ALLOWED_EXTENSIONS (png_upload []) (Finite 2) =
     Inl (HTTPException 422 ''Image processing failed: cannot identify image file'') \<and>
   status (upscale_endpoint (\<lambda>x. x) (toy_pil (rgb_image 100 100)) ALLOWED_EXTENSIONS (png_upload [], Finite 2)) = 422"
proof -
  have valid: "validate_image_file ALLOWED_EXTENSIONS (png_upload []) = (True, [])"
    by (rule png_upload_valid) simp
  have rd: "read_result (png_upload []) = Inr []" by (simp add: png_upload_def)
  have len: "length ([] :: bytes) \<le> MAX_FILE_SIZE" by simp
  have op: "Image_open (toy_pil (rgb_image 100 100)) [] = Inl (OSError ''cannot identify image file'')"
    by (simp add: toy_pil_def)
  from transform_failure_is_422 [OF accepted_2 valid rd len disjI1, OF op, of "\<lambda>x. x"]
  show ?thesis using accepted_2 valid rd op by simp
qed

section \<open>Dimensions that round down to zero\<close>

lemma spec_dimension_mono:
  assumes r: "binary64_rounding rnd" and "s' \<le> s"
  shows "spec_dimension rnd n s' \<le> spec_dimension rnd n s"
proof -
  have "0 \<le> rnd (of_nat n)" by (rule rnd_nonneg [OF r]) simp
  with assms(2) have "rnd (of_nat n) * s' \<le> rnd (of_nat n) * s" by (rule mult_left_mono)
  from rnd_mono [OF r this] show ?thesis by (simp add: spec_dimension_def floor_mono)
qed

lemma spec_clamped_factor_le: "spec_clamped_factor rnd w h s \<le> s"
  by (simp add: spec_clamped_factor_def)

lemma new_dimensions_zero:
  assumes r: "binary64_rounding rnd" and s: "0 \<le> s"
    and ok: "new_dimensions rnd (w, h) (Finite s) = Inr ((nw, nh), sf')"
    and z: "spec_dimension rnd w s = 0 \<or> spec_dimension rnd h s = 0"
  shows "nw = 0 \<or> nh = 0"
proof -
  from new_dimensions_accepted(2) [OF r s ok]
  obtain s' where s': "sf' = Finite s'" "0 \<le> s'" "nw = spec_dimension rnd w s'"
    "nh = spec_dimension rnd h s'" by blast
  from new_dimensions_accepted(1) [OF r s ok] s'(1) have "s' \<le> s"
    using spec_clamped_factor_le [of rnd w h s] by (auto split: if_splits)
  from spec_dimension_mono [OF r this] s'(3,4)
  have "nw \<le> spec_dimension rnd w s" "nh \<le> spec_dimension rnd h s" by simp_all
  moreover from new_dimensions_accepted(3) [OF r s ok] have "0 \<le> nw" "0 \<le> nh" by simp_all
  ultimately show ?thesis using z by auto
qed

lemma spec_dimension_tiny:
  assumes r: "binary64_rounding rnd" and s: "0 < s" "s \<le> 1 / 200"
  shows "spec_dimension rnd 100 s = 0"
proof -
  let ?u = "1 + DBL_EPSILON / 2"
  have "DBL_MIN \<le> 100" using DBL_MIN_le_one by linarith
  from rnd_upper [OF r this] have "rnd 100 \<le> 100 * ?u" .
  also have "\<dots> \<le> 125" by (simp add: DBL_EPSILON_def)
  finally have f: "rnd 100 \<le> 125" .
  have f0: "0 \<le> rnd 100" by (rule rnd_nonneg [OF r]) simp
  have "rnd 100 * s \<le> 125 * (1 / 200)"
    using f f0 s by (intro mult_mono) simp_all
  then have p1: "rnd 100 * s \<le> 5 / 8" by simp
  have p0: "0 \<le> rnd 100 * s" using f0 s(1) by simp
  have "DBL_MIN \<le> 5 / 8" by (simp add: DBL_MIN_def)
  from rnd_upper [OF r this] have "rnd (5 / 8) \<le> 5 / 8 * ?u" .
  also have "\<dots> < 1" by (simp add: DBL_EPSILON_def)
  finally have "rnd (5 / 8) < 1" .
  with rnd_mono [OF r p1] have lt: "rnd (rnd 100 * s) < 1" by linarith
  have ge: "0 \<le> rnd (rnd 100 * s)" by (rule rnd_nonneg [OF r p0])
  from lt ge show ?thesis by (simp add: spec_dimension_def floor_eq_iff)
qed

lemma accepted_Finite:
  assumes "0 < s" "s \<le> 4"
  shows "\<not> scale_factor_rejected (Finite s)"
  using assms by (simp add: scale_factor_rejected_def fle_def fgt_def)

text \<open>
  C9. Accepted scale factors exist for which a side of the result rounds down to zero:
  every factor in (0, 1/200] is accepted and gives \<open>floor(100 * s) = 0\<close>. For every
  request that passes all checks and decodes to an image with such a side, whatever
  dimensions the transform computes have a zero side, and (the library refusing to resize
  to a side below 1, as Pillow does) the request ends in the \<^verbatim>\<open>HTTPException\<close> with
  status 422, and the client gets status 422.
\<close>

theorem zero_dimension_is_422:
  assumes r: "binary64_rounding rnd"
  shows "(\<forall>s. 0 < s \<and> s \<le> 1 / 200 \<longrightarrow>
            \<not> scale_factor_rejected (Finite s) \<and> spec_dimension rnd 100 s = 0) \<and>
         (\<forall>lib upload msg file_content decoded img s.
            \<not> scale_factor_rejected (Finite s) \<and>
            validate_image_file ext_order upload = (True, msg) \<and>
            read_result upload = Inr file_content \<and>
            length file_content \<le> MAX_FILE_SIZE \<and>
            Image_open lib file_content = Inr decoded \<and>
            convert_mode lib decoded = Inr img \<and>
            (spec_dimension rnd (fst (img_size img)) s = 0 \<or>
             spec_dimension rnd (snd (img_size img)) s = 0) \<and>
            (\<forall>im sz f. fst sz < 1 \<or> snd sz < 1 \<longrightarrow> (\<exists>e. resize lib im sz f = Inl e))
            \<longrightarrow>
            (\<forall>dims. new_dimensions rnd (img_size img) (Finite s) = Inr dims \<longrightarrow>
               fst (fst dims) = 0 \<or> snd (fst dims) = 0) \<and>
            (\<exists>cause. upscale_image rnd lib ext_order upload (Finite s) =
               Inl (HTTPException 422 (''Image processing failed: '' @ cause))) \<and>
            status (upscale_endpoint rnd lib ext_order (upload, Finite s)) = 422)"
proof (intro conjI allI impI)
  fix s :: rat
  assume "0 < s \<and> s \<le> 1 / 200"
  then show "\<not> scale_factor_rejected (Finite s)" by (intro accepted_Finite) simp_all
next
  fix s :: rat
  assume "0 < s \<and> s \<le> 1 / 200"
  then show "spec_dimension rnd 100 s = 0" using spec_dimension_tiny [OF r] by blast
next
  fix lib :: "('a, 'b) pil_scheme" and upl msg file_content decoded img s dims
  assume h: "\<not> scale_factor_rejected (Finite s) \<and>
            validate_image_file ext_order upl = (True, msg) \<and>
            read_result upl = Inr file_content \<and>
            length file_content \<le> MAX_FILE_SIZE \<and>
            Image_open lib file_content = Inr decoded \<and>
            convert_mode lib decoded = Inr img \<and>
            (spec_dimension rnd (fst (img_size img)) s = 0 \<or>
             spec_dimension rnd (snd (img_size img)) s = 0) \<and>
            (\<forall>im sz f. fst sz < 1 \<or> snd sz < 1 \<longrightarrow> (\<exists>e. resize lib im sz f = Inl e))"
    and nd: "new_dimensions rnd (img_size img) (Finite s) = Inr dims"
  from h accepted_cases have s0: "0 \<le> s" by fastforce
  from new_dimensions_zero [OF r s0, of "fst (img_size img)" "snd (img_size img)"
      "fst (fst dims)" "snd (fst dims)" "snd dims"] nd h
  show "fst (fst dims) = 0 \<or> snd (fst dims) = 0" by simp
next
  fix lib :: "('a, 'b) pil_scheme" and upl msg file_content decoded img s
  assume h: "\<not> scale_factor_rejected (Finite s) \<and>
            validate_image_file ext_order upl = (True, msg) \<and>
            read_result upl = Inr file_content \<and>
            length file_content \<le> MAX_FILE_SIZE \<and>
            Image_open lib file_content = Inr decoded \<and>
            convert_mode lib decoded = Inr img \<and>
            (spec_dimension rnd (fst (img_size img)) s = 0 \<or>
             spec_dimension rnd (snd (img_size img)) s = 0) \<and>
            (\<forall>im sz f. fst sz < 1 \<or> snd sz < 1 \<longrightarrow> (\<exists>e. resize lib im sz f = Inl e))"
  from h accepted_cases have s0: "0 \<le> s" by fastforce
  have "\<exists>e. process_image_body rnd lib file_content (Finite s) = Inl e"
  proof (cases "new_dimensions rnd (img_size img) (Finite s)")
    case (Inl e)
    with h have "process_image_body rnd lib file_content (Finite s) = Inl e"
      by (simp add: process_image_body_def bind_exc_def)
    then show ?thesis ..
  next
    case (Inr dims)
    from new_dimensions_zero [OF r s0, of "fst (img_size img)" "snd (img_size img)"
      "fst (fst dims)" "snd (fst dims)" "snd dims"] Inr h
    have "fst (fst dims) < 1 \<or> snd (fst dims) < 1" by auto
    with h obtain e where "resize lib img (fst dims) BICUBIC = Inl e" by blast
    with h Inr have "process_image_body rnd lib file_content (Finite s) = Inl e"
      by (simp add: process_image_body_def upscale_and_save_def bind_exc_def)
    then show ?thesis ..
  qed
  then obtain e where "process_image_body rnd lib file_content (Finite s) = Inl e" ..
  then have "process_image rnd lib file_content (Finite s) =
      Inl (HTTPException 422 (''Image processing failed: '' @ str_exc e))"
    by (rule process_image_Inl)
  with upscale_image_processes [of "Finite s" ext_order upl msg file_content rnd lib] h
  have up: "upscale_image rnd lib ext_order upl (Finite s) =
      Inl (HTTPException 422 (''Image processing failed: '' @ str_exc e))"
    by simp
  then show "\<exists>cause. upscale_image rnd lib ext_order upl (Finite s) =
               Inl (HTTPException 422 (''Image processing failed: '' @ cause))" by blast
  from upscale_endpoint_422 [OF up]
  show "status (upscale_endpoint rnd lib ext_order (upl, Finite s)) = 422"
    by (simp add: JSONResponse_def)
qed


lemma toy_resize_refuses:
  "\<forall>im sz f. fst sz < 1 \<or> snd sz < 1 \<longrightarrow> (\<exists>e. resize (toy_pil d) im sz f = Inl e)"
  by (simp add: toy_pil_def)

lemma toy_decodes:
  "Image_open (toy_pil d) ''x'' = Inr d"
  "convert_mode (toy_pil d) (rgb_image w h) = Inr (rgb_image w h)"
  by (simp_all add: toy_pil_def convert_mode_def rgb_image_def)

theorem zero_dimension_is_422_witness:
  "binary64_rounding (\<lambda>x. x) \<and>
   \<not> scale_factor_rejected (Finite (1 / 1000)) \<and>
   spec_dimension (\<lambda>x. x) 100 (1 / 1000) = 0 \<and>
   validate_image_file ALLOWED_EXTENSIONS (png_upload ''x'') = (True, []) \<and>
   Image_open (toy_pil (rgb_image 100 100)) ''x'' = Inr (rgb_image 100 100) \<and>
   (\<exists>cause. upscale_image (\<lambda>x. x) (toy_pil (rgb_image 100 100)) ALLOWED_EXTENSIONS (png_upload ''x'')
       (Finite (1 / 1000)) = Inl (HTTPException 422 (''Image processing failed: '' @ cause))) \<and>
   status (upscale_endpoint (\<lambda>x. x) (toy_pil (rgb_image 100 100)) ALLOWED_EXTENSIONS
       (png_upload ''x'', Finite (1 / 1000))) = 422"
proof -
  note t = zero_dimension_is_422 [OF exact_rounding]
  from t [THEN conjunct1, rule_format, of "1 / 1000"]
  have a: "\<not> scale_factor_rejected (Finite (1 / 1000)) \<and>
      spec_dimension (\<lambda>x. x) 100 (1 / 1000) = 0"
    by simp
  have valid: "validate_image_file ALLOWED_EXTENSIONS (png_upload ''x'') = (True, [])"
    by (rule png_upload_valid) (simp add: MAX_FILE_SIZE_def)
  have rd: "read_result (png_upload ''x'') = Inr ''x''" by (simp add: png_upload_def)
  have len: "length ''x'' \<le> MAX_FILE_SIZE" by (simp add: MAX_FILE_SIZE_def)
  have sz: "spec_dimension (\<lambda>x. x) (fst (img_size (rgb_image 100 100))) (1 / 1000) = 0"
    using a by (simp add: rgb_image_def)
  from t [THEN conjunct2, rule_format, where s = "1 / 1000" and upload = "png_upload ''x''"
      and msg = "[]" and file_content = "''x''" and lib = "toy_pil (rgb_image 100 100)"
      and decoded = "rgb_image 100 100" and img = "rgb_image 100 100"]
    a valid rd len sz toy_decodes toy_resize_refuses
  have b: "(\<exists>cause. upscale_image (\<lambda>x. x) (toy_pil (rgb_image 100 100)) ALLOWED_EXTENSIONS (png_upload ''x'')
       (Finite (1 / 1000)) = Inl (HTTPException 422 (''Image processing failed: '' @ cause))) \<and>
     status (upscale_endpoint (\<lambda>x. x) (toy_pil (rgb_image 100 100)) ALLOWED_EXTENSIONS
       (png_upload ''x'', Finite (1 / 1000))) = 422"
    by blast
  from a b valid exact_rounding toy_decodes(1) show ?thesis by blast
qed

section \<open>The scale factor check\<close>

lemma scale_factor_rejected_iff:
  "scale_factor_rejected sf \<longleftrightarrow> sf \<noteq> NaN \<and> \<not> (\<exists>s. sf = Finite s \<and> 0 < s \<and> s \<le> 4)"
  by (cases sf) (auto simp: scale_factor_rejected_def fle_def fgt_def)

lemma rejected_scale_factor_is_400:
  assumes "scale_factor_rejected sf"
  shows "upscale_image rnd lib ext_order file sf =
           Inl (HTTPException 400 ''Scale factor must be between 0.1 and 4.0'')"
  using assms by (simp add: upscale_image_def)

text \<open>
  C2, at the input the check misses. Both comparisons of the check are false on NaN,
  so NaN is not rejected: the file is validated, read and decoded, and the request
  fails only when \<^verbatim>\<open>int\<close> is applied to the NaN product, with status 422 and not 400.
\<close>

theorem nan_scale_factor_not_rejected:
  "\<not> scale_factor_rejected NaN \<and>
   upscale_image (\<lambda>x. x) (toy_pil (rgb_image 100 100)) ALLOWED_EXTENSIONS (png_upload ''x'') NaN =
     Inl (HTTPException 422 ''Image processing failed: cannot convert float NaN to integer'')"
proof -
  have acc: "\<not> scale_factor_rejected NaN"
    by (simp add: scale_factor_rejected_def fle_def fgt_def)
  have valid: "validate_image_file ALLOWED_EXTENSIONS (png_upload ''x'') = (True, [])"
    by (rule png_upload_valid) (simp add: MAX_FILE_SIZE_def)
  have rd: "read_result (png_upload ''x'') = Inr ''x''" by (simp add: png_upload_def)
  have len: "length ''x'' \<le> MAX_FILE_SIZE" by (simp add: MAX_FILE_SIZE_def)
  have "process_image (\<lambda>x. x) (toy_pil (rgb_image 100 100)) ''x'' NaN =
     Inl (HTTPException 422 ''Image processing failed: cannot convert float NaN to integer'')"
    by (simp add: process_image_def process_image_body_def bind_exc_def convert_mode_def
        new_dimensions_def scaled_def int_mul_float_def float_of_int_def toy_pil_def
        rgb_image_def Let_def DBL_MAX_def)
  with upscale_image_processes [OF acc valid rd len, of "\<lambda>x. x" "toy_pil (rgb_image 100 100)"] acc
  show ?thesis by simp
qed

section \<open>Security headers\<close>

lemma map_of_replace:
  "map_of (map (\<lambda>kv. if fst kv = a then (a, w) else kv) hs) b =
     (if b = a then (if a \<in> fst ` set hs then Some w else None) else map_of hs b)"
  by (induction hs) force+

lemma map_of_append_new:
  "a \<notin> fst ` set hs \<Longrightarrow> map_of (hs @ [(a, w)]) b = (if b = a then Some w else map_of hs b)"
  by (induction hs) auto

lemma get_set_header:
  "get_header (set_header k v r) k' =
     (if py_lower k' = py_lower k then Some (Str v) else get_header r k')"
proof (cases "py_lower k \<in> fst ` set (headers r)")
  case True
  then show ?thesis
    by (simp add: get_header_def set_header_def Let_def map_of_replace)
next
  case False
  then show ?thesis
    by (simp add: get_header_def set_header_def Let_def map_of_append_new del: map_of_append)
qed

lemma security_headers_set:
  "get_header (security_headers r) ''X-Content-Type-Options'' = Some (Str ''nosniff'')"
  "get_header (security_headers r) ''X-Frame-Options'' = Some (Str ''DENY'')"
  "get_header (security_headers r) ''X-XSS-Protection'' = Some (Str ''1; mode=block'')"
  "get_header (security_headers r) ''Strict-Transport-Security'' =
     Some (Str ''max-age=31536000; includeSubDomains'')"
  "get_header (security_headers r) ''Referrer-Policy'' =
     Some (Str ''strict-origin-when-cross-origin'')"
  by (simp_all add: security_headers_def get_set_header py_lower_def lower_char_def)

text \<open>
  C3, at the response the middleware returns early. With ten timestamps of the client
  inside the window the middleware answers 429 itself, before the lines that set the
  security headers: the response carries none of the five.
\<close>

theorem rate_limited_response_has_no_security_headers:
  "snd (add_security_headers (\<lambda>x. x) call_next
          [''10.0.0.1'' \<mapsto> replicate 10 (Finite 0)] (Finite 1) ''10.0.0.1'' request) =
     JSONResponse 429 [(''detail'', ''Rate limit exceeded. Please try again later.'')] \<and>
   get_header (JSONResponse 429 [(''detail'', ''Rate limit exceeded. Please try again later.'')])
     ''X-Content-Type-Options'' = None \<and>
   get_header (JSONResponse 429 [(''detail'', ''Rate limit exceeded. Please try again later.'')])
     ''X-Frame-Options'' = None \<and>
   get_header (JSONResponse 429 [(''detail'', ''Rate limit exceeded. Please try again later.'')])
     ''X-XSS-Protection'' = None \<and>
   get_header (JSONResponse 429 [(''detail'', ''Rate limit exceeded. Please try again later.'')])
     ''Strict-Transport-Security'' = None \<and>
   get_header (JSONResponse 429 [(''detail'', ''Rate limit exceeded. Please try again later.'')])
     ''Referrer-Policy'' = None"
proof -
  have w: "in_window (\<lambda>x. x) (Finite 1) (Finite 0)"
    by (simp add: in_window_def RATE_LIMIT_WINDOW_def to_float_def DBL_MAX_def)
  have "filter (in_window (\<lambda>x. x) (Finite 1)) (replicate 10 (Finite 0)) = replicate 10 (Finite 0)"
    using w by simp
  then have "snd (add_security_headers (\<lambda>x. x) call_next
          [''10.0.0.1'' \<mapsto> replicate 10 (Finite 0)] (Finite 1) ''10.0.0.1'' request) =
     JSONResponse 429 [(''detail'', ''Rate limit exceeded. Please try again later.'')]"
    by (simp add: add_security_headers_def timestamps_def RATE_LIMIT_REQUESTS_def Let_def)
  then show ?thesis by (simp add: get_header_def JSONResponse_def)
qed

section \<open>Conversion by mode\<close>

text \<open>
  C7. An image of mode RGBA or LA is pasted, with its last band (the alpha channel) as the
  mask, onto a new RGB image of the same size filled with (255, 255, 255); the result is
  that background: mode RGB, the same size, the pasted pixels. An image of mode RGB or L
  is returned as it is. An image of any other mode is converted to RGB. Whenever
  \<open>process_image\<close> returns a result, the image it resized is the converted one.
\<close>

theorem convert_mode_by_mode:
  "(mode img \<in> {''RGBA'', ''LA''} \<and>
      new_pixels lib ''RGB'' (img_size img) (255, 255, 255) = Inr white \<and>
      split lib img = Inr bands \<and> bands \<noteq> [] \<and>
      paste_pixels lib \<lparr>mode = ''RGB'', img_size = img_size img, pixels = white\<rparr> img
        (last bands) = Inr pasted
      \<longrightarrow> convert_mode lib img =
            Inr \<lparr>mode = ''RGB'', img_size = img_size img, pixels = pasted\<rparr>) \<and>
   (mode img \<in> {''RGB'', ''L''} \<longrightarrow> convert_mode lib img = Inr img) \<and>
   (mode img \<notin> {''RGBA'', ''LA'', ''RGB'', ''L''} \<longrightarrow>
      convert_mode lib img = convert lib img ''RGB'') \<and>
   (\<forall>rnd image_data sf out md.
      process_image rnd lib image_data sf = Inr (out, md) \<longrightarrow>
      (\<exists>decoded converted upscaled.
         Image_open lib image_data = Inr decoded \<and>
         convert_mode lib decoded = Inr converted \<and>
         original_size md = img_size converted \<and>
         resize lib converted (processed_size md) BICUBIC = Inr upscaled))"
proof (intro conjI impI allI)
  assume "mode img \<in> {''RGBA'', ''LA''} \<and>
      new_pixels lib ''RGB'' (img_size img) (255, 255, 255) = Inr white \<and>
      split lib img = Inr bands \<and> bands \<noteq> [] \<and>
      paste_pixels lib \<lparr>mode = ''RGB'', img_size = img_size img, pixels = white\<rparr> img
        (last bands) = Inr pasted"
  then show "convert_mode lib img =
      Inr \<lparr>mode = ''RGB'', img_size = img_size img, pixels = pasted\<rparr>"
    by (auto simp: convert_mode_def Image_new_def split_last_def paste_def bind_exc_def)
next
  assume "mode img \<in> {''RGB'', ''L''}"
  then show "convert_mode lib img = Inr img"
    by (auto simp: convert_mode_def)
next
  assume "mode img \<notin> {''RGBA'', ''LA'', ''RGB'', ''L''}"
  then show "convert_mode lib img = convert lib img ''RGB''"
    by (auto simp: convert_mode_def)
next
  fix rnd image_data sf out md
  assume "process_image rnd lib image_data sf = Inr (out, md)"
  from process_image_InrD [OF this]
  show "\<exists>decoded converted upscaled.
         Image_open lib image_data = Inr decoded \<and>
         convert_mode lib decoded = Inr converted \<and>
         original_size md = img_size converted \<and>
         resize lib converted (processed_size md) BICUBIC = Inr upscaled"
    by auto
qed

theorem convert_mode_by_mode_witness:
  "mode (rgba_image 2 2) \<in> {''RGBA'', ''LA''} \<and>
   convert_mode (toy_pil (rgba_image 2 2)) (rgba_image 2 2) =
     Inr \<lparr>mode = ''RGB'', img_size = (2, 2), pixels = ''rgba over white by A''\<rparr> \<and>
   mode (rgb_image 2 2) \<in> {''RGB'', ''L''} \<and>
   convert_mode (toy_pil (rgba_image 2 2)) (rgb_image 2 2) = Inr (rgb_image 2 2) \<and>
   mode (rgb_image 2 2\<lparr>mode := ''P''\<rparr>) \<notin> {''RGBA'', ''LA'', ''RGB'', ''L''} \<and>
   convert_mode (toy_pil (rgba_image 2 2)) (rgb_image 2 2\<lparr>mode := ''P''\<rparr>) = Inr (rgb_image 2 2)"
proof -
  let ?lib = "toy_pil (rgba_image 2 2)"
  have m1: "mode (rgba_image 2 2) \<in> {''RGBA'', ''LA''}" by (simp add: rgba_image_def)
  have m2: "mode (rgb_image 2 2) \<in> {''RGB'', ''L''}" by (simp add: rgb_image_def)
  have m3: "mode (rgb_image 2 2\<lparr>mode := ''P''\<rparr>) \<notin> {''RGBA'', ''LA'', ''RGB'', ''L''}"
    by simp
  have ops: "new_pixels ?lib ''RGB'' (img_size (rgba_image 2 2)) (255, 255, 255) = Inr ''white''"
    "split ?lib (rgba_image 2 2) =
       Inr (map (\<lambda>c. \<lparr>mode = ''L'', img_size = (2, 2), pixels = [c]\<rparr>) ''RGBA'')"
    "paste_pixels ?lib \<lparr>mode = ''RGB'', img_size = img_size (rgba_image 2 2), pixels = ''white''\<rparr>
       (rgba_image 2 2)
       (last (map (\<lambda>c. \<lparr>mode = ''L'', img_size = (2, 2), pixels = [c]\<rparr>) ''RGBA'')) =
       Inr ''rgba over white by A''"
    by (simp_all add: toy_pil_def rgba_image_def)
  from convert_mode_by_mode [of "rgba_image 2 2" ?lib "''white''"
      "map (\<lambda>c. \<lparr>mode = ''L'', img_size = (2, 2), pixels = [c]\<rparr>) ''RGBA''"
      "''rgba over white by A''"]
    m1 ops
  have c1: "convert_mode ?lib (rgba_image 2 2) =
     Inr \<lparr>mode = ''RGB'', img_size = (2, 2), pixels = ''rgba over white by A''\<rparr>"
    by (simp add: rgba_image_def)
  from convert_mode_by_mode [of "rgb_image 2 2" ?lib] m2
  have c2: "convert_mode ?lib (rgb_image 2 2) = Inr (rgb_image 2 2)" by blast
  from convert_mode_by_mode [of "rgb_image 2 2\<lparr>mode := ''P''\<rparr>" ?lib] m3
  have "convert_mode ?lib (rgb_image 2 2\<lparr>mode := ''P''\<rparr>) =
      convert ?lib (rgb_image 2 2\<lparr>mode := ''P''\<rparr>) ''RGB''" by blast
  then have c3: "convert_mode ?lib (rgb_image 2 2\<lparr>mode := ''P''\<rparr>) = Inr (rgb_image 2 2)"
    by (simp add: toy_pil_def rgb_image_def)
  from m1 m2 m3 c1 c2 c3 show ?thesis by blast
qed

section \<open>The rate limit\<close>















section \<open>Dimension clamp\<close>

lemma rnd_le_double:
  assumes r: "binary64_rounding rnd" and x: "DBL_MIN \<le> x"
  shows "rnd x \<le> 2 * x"
proof -
  have x0: "0 \<le> x" using x DBL_MIN_pos by linarith
  have "x * (1 + DBL_EPSILON / 2) \<le> x * 2"
    using x0 by (intro mult_left_mono) (simp_all add: DBL_EPSILON_def)
  with rnd_upper [OF r x] show ?thesis by linarith
qed

lemma scaled_total:
  assumes r: "binary64_rounding rnd" and s: "0 \<le> s" "s \<le> 4" and n: "n \<le> 2 ^ 1000"
  shows "scaled rnd n (Finite s) = Inr (spec_dimension rnd n s)"
proof -
  let ?f = "rnd (of_nat n)"
  have n': "(of_nat n :: rat) \<le> 2 ^ 1000" using n by (metis of_nat_le_iff of_nat_numeral of_nat_power)
  have f0: "0 \<le> ?f" by (rule rnd_nonneg [OF r]) simp
  have "DBL_MIN \<le> 2 ^ 1000" using DBL_MIN_le_one by (simp add: order_trans [OF _ one_le_power])
  from rnd_le_double [OF r this] rnd_mono [OF r n'] have f1: "?f \<le> 2 * 2 ^ 1000" by linarith
  have big: "(2::rat) * 2 ^ 1000 \<le> DBL_MAX" "(16::rat) * 2 ^ 1000 \<le> DBL_MAX"
    by (simp_all add: DBL_MAX_def)
  have conv: "float_of_int rnd (int n) = Inr (Finite ?f)"
    using f0 f1 big by (simp add: float_of_int_def)
  have p0: "0 \<le> ?f * s" using f0 s by simp
  have "?f * s \<le> (2 * 2 ^ 1000) * 4" using f0 f1 s by (intro mult_mono) simp_all
  then have p1: "?f * s \<le> 8 * 2 ^ 1000" by simp
  have "DBL_MIN \<le> 8 * 2 ^ 1000" using DBL_MIN_le_one
    by (intro order_trans [OF DBL_MIN_le_one]) simp
  from rnd_le_double [OF r this] rnd_mono [OF r p1]
  have q1: "rnd (?f * s) \<le> DBL_MAX" using big by linarith
  have q0: "0 \<le> rnd (?f * s)" by (rule rnd_nonneg [OF r p0])
  have "- DBL_MAX \<le> 0" by (simp add: DBL_MAX_def)
  with q0 q1 show ?thesis
    by (simp add: scaled_def int_mul_float_def conv bind_exc_def to_float_def
        spec_dimension_def Let_def)
qed

lemma int_truediv_total:
  assumes r: "binary64_rounding rnd" and n: "0 < n"
  shows "int_truediv rnd MAX_DIMENSION (int n) = Inr (Finite (rnd (4000 / of_nat n)))"
proof -
  have q0: "0 \<le> rnd (4000 / of_nat n)" by (rule rnd_nonneg [OF r]) simp
  have "(4000 :: rat) / of_nat n \<le> 4000" using n by (simp add: pos_divide_le_eq)
  from rnd_mono [OF r this] have "rnd (4000 / of_nat n) \<le> rnd 4000" .
  also have "rnd 4000 \<le> 2 * 4000"
    by (rule rnd_le_double [OF r]) (use DBL_MIN_le_one in linarith)
  also have "\<dots> \<le> DBL_MAX" by (simp add: DBL_MAX_def)
  finally show ?thesis using q0 n
    by (simp add: int_truediv_def MAX_DIMENSION_def Let_def)
qed

lemma spec_effective_factor_bounds:
  assumes r: "binary64_rounding rnd" and s: "0 \<le> s"
  shows "0 \<le> spec_effective_factor rnd w h s" and "spec_effective_factor rnd w h s \<le> s"
proof -
  have "0 \<le> rnd (4000 / of_nat w)" "0 \<le> rnd (4000 / of_nat h)"
    by (rule rnd_nonneg [OF r], simp)+
  with s show "0 \<le> spec_effective_factor rnd w h s"
    by (simp add: spec_effective_factor_def spec_clamped_factor_def)
  show "spec_effective_factor rnd w h s \<le> s"
    by (auto simp: spec_effective_factor_def spec_clamped_factor_def min_le_iff_disj)
qed

lemma new_dimensions_total:
  assumes r: "binary64_rounding rnd" and s: "0 \<le> s" "s \<le> 4"
    and w: "0 < w" "w \<le> 2 ^ 1000" and h: "0 < h" "h \<le> 2 ^ 1000"
  shows "new_dimensions rnd (w, h) (Finite s) =
           Inr ((spec_dimension rnd w (spec_effective_factor rnd w h s),
                 spec_dimension rnd h (spec_effective_factor rnd w h s)),
                Finite (spec_effective_factor rnd w h s))"
proof (cases "spec_dimension rnd w s \<le> 4000 \<and> spec_dimension rnd h s \<le> 4000")
  case True
  then show ?thesis
    by (simp add: new_dimensions_def Let_def bind_exc_def MAX_DIMENSION_def
        scaled_total [OF r s w(2)] scaled_total [OF r s h(2)] spec_effective_factor_def)
next
  case False
  let ?s = "spec_effective_factor rnd w h s"
  have e: "?s = spec_clamped_factor rnd w h s"
    using False by (auto simp: spec_effective_factor_def)
  have s': "0 \<le> ?s" "?s \<le> 4"
    using spec_effective_factor_bounds [OF r s(1), of w h] s(2) by simp_all
  have m: "py_min3 (Finite (rnd (4000 / of_nat w))) (Finite (rnd (4000 / of_nat h))) (Finite s) =
      Finite ?s"
    by (simp add: py_min3_Finite e spec_clamped_factor_def)
  from False show ?thesis
    by (auto simp: new_dimensions_def Let_def bind_exc_def
        scaled_total [OF r s w(2)] scaled_total [OF r s h(2)]
        int_truediv_total [OF r w(1), unfolded MAX_DIMENSION_def]
        int_truediv_total [OF r h(1), unfolded MAX_DIMENSION_def] m
        scaled_total [OF r s' w(2)] scaled_total [OF r s' h(2)] MAX_DIMENSION_def)
qed

lemma spec_dimension_effective:
  assumes r: "binary64_rounding rnd" and s: "0 \<le> s" "s \<le> 4"
    and w: "0 < w" "w \<le> 2 ^ 1000" and h: "0 < h" "h \<le> 2 ^ 1000"
  shows "spec_dimension rnd w (spec_effective_factor rnd w h s) \<le> 4000"
    and "spec_dimension rnd h (spec_effective_factor rnd w h s) \<le> 4000"
  using new_dimensions_accepted(3) [OF r s(1) new_dimensions_total [OF r s w h]] by simp_all

lemma process_image_total:
  assumes "Image_open lib image_data = Inr decoded"
    and "convert_mode lib decoded = Inr img"
    and "new_dimensions rnd (img_size img) sf = Inr (dims, sf')"
    and "resize lib img dims BICUBIC = Inr upscaled"
    and "filter_UnsharpMask lib upscaled 1 150 3 = Inr sharpened"
    and "save lib sharpened ''JPEG'' 95 True = Inr out"
  shows "process_image rnd lib image_data sf =
           Inr (out, \<lparr>original_size = img_size img, processed_size = dims, scale_factor = sf',
                      format = ''JPEG'', file_size_bytes = length out\<rparr>)"
  using assms
  by (simp add: process_image_def process_image_body_def upscale_and_save_def bind_exc_def)

lemma latin1_test:
  "latin1_encodable ''photo.PNG''" "\<not> latin1_encodable [CHR 0xE5, CHR 0x9B, CHR 0xBE]"
  by (simp_all add: latin1_encodable_def)


text \<open>
  C1. Let \<open>process_image\<close> run on an accepted scale factor.

  Whenever it returns a result: the factor is a positive finite number \<open>s\<close>; the
  dimensions are first \<open>floor(w * s)\<close> and \<open>floor(h * s)\<close> (float product); if either
  exceeds 4000 the factor becomes \<open>min(4000 / w, 4000 / h, s)\<close> and otherwise stays
  \<open>s\<close>; the processed size in the metadata is computed from the factor in the metadata,
  is the size handed to the resize, and neither side of it exceeds 4000.

  And it does compute them: for every factor in (0, 4] and every image with sides from
  1 to \<open>2\<^sup>1\<^sup>0\<^sup>0\<^sup>0\<close>, the computation of the dimensions raises nothing and returns
  the dimensions computed from the effective factor, together with that factor, and both
  are at most 4000. When the payload decodes and the library's resize, filter and encoder
  return on that size, \<open>process_image\<close> returns the encoded bytes with exactly this
  metadata.
\<close>

theorem process_image_clamps_dimensions:
  assumes r: "binary64_rounding rnd"
  shows
    "(\<forall>sf image_data out md.
        \<not> scale_factor_rejected sf \<and> process_image rnd lib image_data sf = Inr (out, md) \<longrightarrow>
        (\<exists>w h s s'.
           sf = Finite s \<and> 0 < s \<and> s \<le> 4 \<and>
           original_size md = (w, h) \<and> scale_factor md = Finite s' \<and>
           s' = (if spec_dimension rnd w s \<le> 4000 \<and> spec_dimension rnd h s \<le> 4000 then s
                 else spec_clamped_factor rnd w h s) \<and>
           processed_size md = (spec_dimension rnd w s', spec_dimension rnd h s') \<and>
           fst (processed_size md) \<le> 4000 \<and> snd (processed_size md) \<le> 4000 \<and>
           (\<exists>img upscaled. img_size img = (w, h) \<and>
               resize lib img (processed_size md) BICUBIC = Inr upscaled))) \<and>
     (\<forall>s w h.
        0 < s \<and> s \<le> 4 \<and> 0 < w \<and> w \<le> 2 ^ 1000 \<and> 0 < h \<and> h \<le> 2 ^ 1000 \<longrightarrow>
        \<not> scale_factor_rejected (Finite s) \<and>
        new_dimensions rnd (w, h) (Finite s) =
          Inr ((spec_dimension rnd w (spec_effective_factor rnd w h s),
                spec_dimension rnd h (spec_effective_factor rnd w h s)),
               Finite (spec_effective_factor rnd w h s)) \<and>
        spec_dimension rnd w (spec_effective_factor rnd w h s) \<le> 4000 \<and>
        spec_dimension rnd h (spec_effective_factor rnd w h s) \<le> 4000) \<and>
     (\<forall>s image_data decoded img w h upscaled sharpened out.
        0 < s \<and> s \<le> 4 \<and>
        Image_open lib image_data = Inr decoded \<and> convert_mode lib decoded = Inr img \<and>
        img_size img = (w, h) \<and> 0 < w \<and> w \<le> 2 ^ 1000 \<and> 0 < h \<and> h \<le> 2 ^ 1000 \<and>
        resize lib img
          (spec_dimension rnd w (spec_effective_factor rnd w h s),
           spec_dimension rnd h (spec_effective_factor rnd w h s)) BICUBIC = Inr upscaled \<and>
        filter_UnsharpMask lib upscaled 1 150 3 = Inr sharpened \<and>
        save lib sharpened ''JPEG'' 95 True = Inr out \<longrightarrow>
        process_image rnd lib image_data (Finite s) =
          Inr (out,
               \<lparr>original_size = (w, h),
                processed_size =
                  (spec_dimension rnd w (spec_effective_factor rnd w h s),
                   spec_dimension rnd h (spec_effective_factor rnd w h s)),
                scale_factor = Finite (spec_effective_factor rnd w h s),
                format = ''JPEG'', file_size_bytes = length out\<rparr>))"
proof (intro conjI allI impI)
  fix sf image_data out md
  assume a: "\<not> scale_factor_rejected sf \<and> process_image rnd lib image_data sf = Inr (out, md)"
  then have acc: "\<not> scale_factor_rejected sf"
    and ok: "process_image rnd lib image_data sf = Inr (out, md)" by simp_all
  from process_image_InrD [OF ok] obtain img dims upscaled
    where nd: "new_dimensions rnd (img_size img) sf = Inr dims"
      and rs: "resize lib img (fst dims) BICUBIC = Inr upscaled"
      and md: "original_size md = img_size img" "processed_size md = fst dims"
        "scale_factor md = snd dims"
    by auto
  obtain w h where wh: "img_size img = (w, h)" by (cases "img_size img")
  obtain nw nh sf' where dims: "dims = ((nw, nh), sf')" by (cases dims) auto
  from accepted_cases [OF acc] nd new_dimensions_NaN
  obtain s where s: "sf = Finite s" "0 < s" "s \<le> 4" by blast
  have s0: "0 \<le> s" using s(2) by simp
  note nd' = nd [unfolded wh dims s(1)]
  from new_dimensions_accepted(2) [OF r s0 nd']
  obtain s' where s': "sf' = Finite s'" "nw = spec_dimension rnd w s'"
    "nh = spec_dimension rnd h s'" by blast
  from new_dimensions_accepted(1) [OF r s0 nd'] s'(1)
  have sel: "s' = (if spec_dimension rnd w s \<le> 4000 \<and> spec_dimension rnd h s \<le> 4000 then s
            else spec_clamped_factor rnd w h s)"
    by (auto split: if_splits)
  from new_dimensions_accepted(3) [OF r s0 nd']
  have bound: "nw \<le> 4000" "nh \<le> 4000" by simp_all
  have "img_size img = (w, h) \<and> resize lib img (processed_size md) BICUBIC = Inr upscaled"
    using wh rs md by simp
  then have used: "\<exists>img upscaled. img_size img = (w, h) \<and>
          resize lib img (processed_size md) BICUBIC = Inr upscaled" by blast
  show "\<exists>w h s s'.
           sf = Finite s \<and> 0 < s \<and> s \<le> 4 \<and>
           original_size md = (w, h) \<and> scale_factor md = Finite s' \<and>
           s' = (if spec_dimension rnd w s \<le> 4000 \<and> spec_dimension rnd h s \<le> 4000 then s
                 else spec_clamped_factor rnd w h s) \<and>
           processed_size md = (spec_dimension rnd w s', spec_dimension rnd h s') \<and>
           fst (processed_size md) \<le> 4000 \<and> snd (processed_size md) \<le> 4000 \<and>
           (\<exists>img upscaled. img_size img = (w, h) \<and>
               resize lib img (processed_size md) BICUBIC = Inr upscaled)"
    using s md wh dims s' sel bound used
    by (intro exI [of _ w] exI [of _ h] exI [of _ s] exI [of _ s']) simp
next
  fix s :: rat and w h :: nat
  assume a: "0 < s \<and> s \<le> 4 \<and> 0 < w \<and> w \<le> 2 ^ 1000 \<and> 0 < h \<and> h \<le> 2 ^ 1000"
  then show "\<not> scale_factor_rejected (Finite s)" by (intro accepted_Finite) simp_all
  from a have s: "0 \<le> s" "s \<le> 4" and w: "0 < w" "w \<le> 2 ^ 1000"
    and h: "0 < h" "h \<le> 2 ^ 1000" by simp_all
  show "new_dimensions rnd (w, h) (Finite s) =
          Inr ((spec_dimension rnd w (spec_effective_factor rnd w h s),
                spec_dimension rnd h (spec_effective_factor rnd w h s)),
               Finite (spec_effective_factor rnd w h s))"
    by (rule new_dimensions_total [OF r s w h])
  show "spec_dimension rnd w (spec_effective_factor rnd w h s) \<le> 4000"
    by (rule spec_dimension_effective(1) [OF r s w h])
  show "spec_dimension rnd h (spec_effective_factor rnd w h s) \<le> 4000"
    by (rule spec_dimension_effective(2) [OF r s w h])
next
  fix s :: rat and image_data decoded and img :: "'a image" and w h upscaled sharpened out
  assume a: "0 < s \<and> s \<le> 4 \<and>
        Image_open lib image_data = Inr decoded \<and> convert_mode lib decoded = Inr img \<and>
        img_size img = (w, h) \<and> 0 < w \<and> w \<le> 2 ^ 1000 \<and> 0 < h \<and> h \<le> 2 ^ 1000 \<and>
        resize lib img
          (spec_dimension rnd w (spec_effective_factor rnd w h s),
           spec_dimension rnd h (spec_effective_factor rnd w h s)) BICUBIC = Inr upscaled \<and>
        filter_UnsharpMask lib upscaled 1 150 3 = Inr sharpened \<and>
        save lib sharpened ''JPEG'' 95 True = Inr out"
  then have s: "0 \<le> s" "s \<le> 4" and w: "0 < w" "w \<le> 2 ^ 1000"
    and h: "0 < h" "h \<le> 2 ^ 1000" by simp_all
  from a have sz: "img_size img = (w, h)" by simp
  note nd = new_dimensions_total [OF r s w h, folded sz]
  from process_image_total [OF _ _ nd, of lib image_data decoded upscaled sharpened out] a
  show "process_image rnd lib image_data (Finite s) =
          Inr (out,
               \<lparr>original_size = (w, h),
                processed_size =
                  (spec_dimension rnd w (spec_effective_factor rnd w h s),
                   spec_dimension rnd h (spec_effective_factor rnd w h s)),
                scale_factor = Finite (spec_effective_factor rnd w h s),
                format = ''JPEG'', file_size_bytes = length out\<rparr>)"
    by simp
qed


lemma toy_factor_values:
  "spec_dimension (\<lambda>x. x) 3000 2 = 6000"
  "spec_effective_factor (\<lambda>x. x) 1500 3000 2 = 4 / 3"
  "spec_effective_factor (\<lambda>x. x) 3000 1500 2 = 4 / 3"
  "spec_dimension (\<lambda>x. x) 1500 (4 / 3) = 2000"
  "spec_dimension (\<lambda>x. x) 3000 (4 / 3) = 4000"
  by (simp_all add: spec_effective_factor_def spec_clamped_factor_def spec_dimension_def)

theorem process_image_clamps_dimensions_witness:
  "binary64_rounding (\<lambda>x. x) \<and>
   \<not> scale_factor_rejected (Finite 2) \<and>
   spec_dimension (\<lambda>x. x) 3000 2 = 6000 \<and>
   new_dimensions (\<lambda>x. x) (1500, 3000) (Finite 2) = Inr ((2000, 4000), Finite (4 / 3)) \<and>
   new_dimensions (\<lambda>x. x) (3000, 1500) (Finite 2) = Inr ((4000, 2000), Finite (4 / 3)) \<and>
   process_image (\<lambda>x. x) (toy_pil (rgb_image 1500 3000)) ''x'' (Finite 2) =
     Inr (''JPEG:rgb'',
          \<lparr>original_size = (1500, 3000), processed_size = (2000, 4000),
           scale_factor = Finite (4 / 3), format = ''JPEG'', file_size_bytes = 8\<rparr>) \<and>
   (\<exists>w h s s'. Finite 2 = Finite s \<and> 0 < s \<and> s \<le> 4 \<and> (3000, 1500) = (w, h) \<and>
      Finite (4 / 3) = Finite s' \<and>
      s' = (if spec_dimension (\<lambda>x. x) w s \<le> 4000 \<and> spec_dimension (\<lambda>x. x) h s \<le> 4000
            then s else spec_clamped_factor (\<lambda>x. x) w h s) \<and>
      ((4000, 2000) :: int \<times> int) = (spec_dimension (\<lambda>x. x) w s', spec_dimension (\<lambda>x. x) h s'))"
proof -
  note t = process_image_clamps_dimensions [OF exact_rounding]
  let ?lib = "toy_pil (rgb_image 1500 3000)"
  from t [of "toy_pil (rgb_image 3000 1500)", THEN conjunct1, rule_format,
      of "Finite 2" "''x''" "''JPEG:rgb''", OF conjI, OF accepted_2 toy_run_clamped]
  have old: "\<exists>w h s s'. Finite 2 = Finite s \<and> 0 < s \<and> s \<le> 4 \<and> (3000, 1500) = (w, h) \<and>
      Finite (4 / 3) = Finite s' \<and>
      s' = (if spec_dimension (\<lambda>x. x) w s \<le> 4000 \<and> spec_dimension (\<lambda>x. x) h s \<le> 4000
            then s else spec_clamped_factor (\<lambda>x. x) w h s) \<and>
      ((4000, 2000) :: int \<times> int) = (spec_dimension (\<lambda>x. x) w s', spec_dimension (\<lambda>x. x) h s')"
    by simp
  from t [of ?lib, THEN conjunct2, THEN conjunct1, rule_format, of 2 1500 3000]
  have n1: "new_dimensions (\<lambda>x. x) (1500, 3000) (Finite 2) = Inr ((2000, 4000), Finite (4 / 3))"
    by (simp add: toy_factor_values)
  from t [of ?lib, THEN conjunct2, THEN conjunct1, rule_format, of 2 3000 1500]
  have n2: "new_dimensions (\<lambda>x. x) (3000, 1500) (Finite 2) = Inr ((4000, 2000), Finite (4 / 3))"
    by (simp add: toy_factor_values)
  have ops: "Image_open ?lib ''x'' = Inr (rgb_image 1500 3000)"
    "convert_mode ?lib (rgb_image 1500 3000) = Inr (rgb_image 1500 3000)"
    "img_size (rgb_image 1500 3000) = (1500, 3000)"
    "resize ?lib (rgb_image 1500 3000) (2000, 4000) BICUBIC =
       Inr (rgb_image 1500 3000\<lparr>img_size := (2000, 4000)\<rparr>)"
    "filter_UnsharpMask ?lib (rgb_image 1500 3000\<lparr>img_size := (2000, 4000)\<rparr>) 1 150 3 =
       Inr (rgb_image 1500 3000\<lparr>img_size := (2000, 4000)\<rparr>)"
    "save ?lib (rgb_image 1500 3000\<lparr>img_size := (2000, 4000)\<rparr>) ''JPEG'' 95 True =
       Inr ''JPEG:rgb''"
    by (simp_all add: toy_pil_def rgb_image_def convert_mode_def)
  from t [of ?lib, THEN conjunct2, THEN conjunct2, rule_format,
      where s = 2 and image_data = "''x''" and decoded = "rgb_image 1500 3000"
        and img = "rgb_image 1500 3000" and w = 1500 and h = 3000
        and upscaled = "rgb_image 1500 3000\<lparr>img_size := (2000, 4000)\<rparr>"
        and sharpened = "rgb_image 1500 3000\<lparr>img_size := (2000, 4000)\<rparr>"
        and out = "''JPEG:rgb''"] ops
  have p: "process_image (\<lambda>x. x) ?lib ''x'' (Finite 2) =
     Inr (''JPEG:rgb'',
          \<lparr>original_size = (1500, 3000), processed_size = (2000, 4000),
           scale_factor = Finite (4 / 3), format = ''JPEG'', file_size_bytes = 8\<rparr>)"
    by (simp add: toy_factor_values)
  from exact_rounding accepted_2 toy_factor_values(1) n1 n2 p old show ?thesis by blast
qed

section \<open>After a successful transform\<close>

text \<open>
  A request that passes every check and whose transform succeeds gets status 200, unless
  the filename cannot be written into a header: then the endpoint answers 500.
\<close>

lemma toy_upscale_200:
  "\<exists>r. upscale_image (\<lambda>x. x) (toy_pil (rgb_image 100 100)) ext_order (png_upload ''x'') (Finite 2) =
         Inr r \<and> status r = 200"
proof -
  have valid: "validate_image_file ext_order (png_upload ''x'') = (True, [])"
    by (rule png_upload_valid) (simp add: MAX_FILE_SIZE_def)
  have rd: "read_result (png_upload ''x'') = Inr ''x''" by (simp add: png_upload_def)
  have len: "length ''x'' \<le> MAX_FILE_SIZE" by (simp add: MAX_FILE_SIZE_def)
  from upscale_image_processes [OF accepted_2 valid rd len, of "\<lambda>x. x" "toy_pil (rgb_image 100 100)"]
  show ?thesis
    by (simp add: toy_run_200 success_response_def StreamingResponse_def png_upload_def
        latin1_encodable_def Let_def)
qed

lemma non_latin1_filename_is_500:
  "upscale_image (\<lambda>x. x) (toy_pil (rgb_image 100 100)) ext_order
     ((png_upload ''x'')\<lparr>filename := Some ([CHR 0xE5, CHR 0x9B, CHR 0xBE] @ ''.png'')\<rparr>) (Finite 2) =
   Inl (HTTPException 500 ''Internal server error during image processing'')"
proof -
  let ?f = "(png_upload ''x'')\<lparr>filename := Some ([CHR 0xE5, CHR 0x9B, CHR 0xBE] @ ''.png'')\<rparr>"
  have valid: "validate_image_file ext_order ?f = (True, [])"
    by (simp add: validate_image_file_def validate_image_file_body_def png_upload_def size_exceeds_def
     extension_rejected_def content_type_rejected_def bind_exc_def MAX_FILE_SIZE_def
     ALLOWED_EXTENSIONS_def ALLOWED_MIME_TYPES_def
     py_lower_def lower_char_def splitext_ext_def basename_def Let_def)
  have rd: "read_result ?f = Inr ''x''" by (simp add: png_upload_def)
  have len: "length ''x'' \<le> MAX_FILE_SIZE" by (simp add: MAX_FILE_SIZE_def)
  from upscale_image_processes [OF accepted_2 valid rd len, of "\<lambda>x. x" "toy_pil (rgb_image 100 100)"]
  show ?thesis
    by (simp add: toy_run_200 success_response_def StreamingResponse_def png_upload_def
        latin1_encodable_def Let_def)
qed

end
